theory Spec2Isabelle
  imports Main "HOL-Library.Sublist" "HOL-Library.Monad_Syntax"
begin

section \<open>Data model\<close>

text \<open>
  The provider's handlers have the Go signature
  \<^verbatim>\<open>func(d *schema.ResourceData, tm interface{}) error\<close>.
  They read attributes off \<open>d\<close> by name, call one method of the REST client \<open>tm\<close>,
  and write attributes and the resource id back into \<open>d\<close>.

  The schema framework hands a handler only attribute sets whose values have the types
  the schema declares, and \<^verbatim>\<open>d.Get\<close> yields the zero value of the declared type for an
  attribute that is not set. So an attribute set is a family of typed maps from attribute
  name to value, one map per schema type; no value is stored at a key of another type.
  The same shape serves three purposes:
  \<^item> an element of a nested table attribute on the Terraform side
    (\<^verbatim>\<open>map[string]interface{}\<close>, keyed by attribute name such as \<open>domain\<close>);
  \<^item> a row struct of the client library (keyed by Go field name such as \<open>Domain\<close>;
    its fields are pointers, and an absent key is the nil pointer);
  \<^item> the scalar and string-list part of \<open>ResourceData\<close> and of a client object.
\<close>

record Fields =
  strs :: "string \<rightharpoonup> string"
  bls :: "string \<rightharpoonup> bool"
  nums :: "string \<rightharpoonup> int"
  lsts :: "string \<rightharpoonup> string list"

type_synonym Row = Fields
type_synonym VtmRow = Fields

text \<open>
  A configuration object of the client library (\<^verbatim>\<open>vtm.GlbService\<close>,
  \<^verbatim>\<open>vtm.TrafficManager\<close>, ...). Its struct declarations belong to the client library, not
  to this repository; every field is a pointer reached by a path such as
  \<^verbatim>\<open>object.Basic.Algorithm\<close>. The object is a typed store from the path
  (\<open>Basic.Algorithm\<close>) to the value behind the pointer, \<open>None\<close> for nil.
\<close>

record Object = Fields +
  tbls :: "string \<rightharpoonup> VtmRow list"

text \<open>
  \<^verbatim>\<open>schema.ResourceData\<close>: the attributes and the resource id. A set-valued table attribute
  is held as the list that \<^verbatim>\<open>(*schema.Set).List()\<close> returns for it.
\<close>

record ResourceData = Fields +
  tables :: "string \<rightharpoonup> Row list"
  Id :: string

text \<open>\<^verbatim>\<open>vtm.VtmErrorResponse\<close>, as far as the handlers read it.\<close>

record VtmErrorResponse =
  ErrorId :: string
  ErrorText :: string

text \<open>
  The methods of \<^verbatim>\<open>*vtm.VirtualTrafficManager\<close> that the handlers call, and
  \<^verbatim>\<open>Apply\<close> on an object. Each call either fails with an error response (\<open>Inl\<close>) or
  returns the object (\<open>Inr\<close>); \<^verbatim>\<open>Apply\<close> and \<^verbatim>\<open>Delete\<close> return the error
  response, if any.
\<close>

record VirtualTrafficManager =
  ListTrafficManagers :: "VtmErrorResponse + string list"
  GetEventStatistics :: "string \<Rightarrow> VtmErrorResponse + Object"
  GetExtrasUserCounters64Statistics :: "VtmErrorResponse + Object"
  GetListenIpStatistics :: "string \<Rightarrow> VtmErrorResponse + Object"
  GetGlbService :: "string \<Rightarrow> VtmErrorResponse + Object"
  NewGlbService :: "string \<Rightarrow> Object"
  DeleteGlbService :: "string \<Rightarrow> VtmErrorResponse option"
  GetSecurity :: "VtmErrorResponse + Object"
  GetTrafficManager :: "string \<Rightarrow> VtmErrorResponse + Object"
  Apply :: "Object \<Rightarrow> VtmErrorResponse option"

text \<open>
  What the handlers use of the Go standard library and of the schema framework beyond
  typed attribute access:
  \<^item> \<^verbatim>\<open>regexp\<close>: compiling a pattern gives an error or a matcher;
  \<^item> \<^verbatim>\<open>json.Unmarshal(data, target)\<close>: given the Go type of the target table, the
    text and the table the target points to, it returns the error, if any, and the table
    it leaves in the target;
  \<^item> \<^verbatim>\<open>json.Marshal\<close> of a list of Terraform-side rows (the bytes as a string);
  \<^item> \<^verbatim>\<open>fmt\<close>'s \<^verbatim>\<open>%v\<close> of a \<^verbatim>\<open>*VtmErrorResponse\<close>;
  \<^item> \<^verbatim>\<open>d.Set\<close> of a byte slice to a string attribute.
\<close>

record Externals =
  regexp_Compile :: "string \<Rightarrow> string + (string \<Rightarrow> bool)"
  json_Unmarshal :: "string \<Rightarrow> string \<Rightarrow> VtmRow list \<Rightarrow> string option \<times> VtmRow list"
  json_Marshal :: "Row list \<Rightarrow> string"
  fmt_v :: "VtmErrorResponse \<Rightarrow> string"
  SetBytes :: "ResourceData \<Rightarrow> string \<Rightarrow> string \<Rightarrow> ResourceData"

text \<open>
  What a handler returns: the Go \<^verbatim>\<open>error\<close> (\<open>None\<close> for nil, otherwise its message) and
  the \<open>ResourceData\<close> it leaves. Create and Update also give the object on which they
  called \<^verbatim>\<open>Apply\<close>, that is, the value sent upstream (\<open>None\<close> when they return
  before the call).
\<close>

type_synonym Result = "string option \<times> ResourceData"
type_synonym ApplyResult = "string option \<times> ResourceData \<times> Object option"

section \<open>The schema framework's attribute access\<close>

text \<open>\<^verbatim>\<open>d.Get(k).(T)\<close> and \<^verbatim>\<open>row[k].(T)\<close>: the value, or the zero value of the type.\<close>

definition getString :: "'a Fields_scheme \<Rightarrow> string \<Rightarrow> string" where
  "getString d k = (case strs d k of Some v \<Rightarrow> v | None \<Rightarrow> [])"

definition getBool :: "'a Fields_scheme \<Rightarrow> string \<Rightarrow> bool" where
  "getBool d k = (case bls d k of Some v \<Rightarrow> v | None \<Rightarrow> False)"

definition getInt :: "'a Fields_scheme \<Rightarrow> string \<Rightarrow> int" where
  "getInt d k = (case nums d k of Some v \<Rightarrow> v | None \<Rightarrow> 0)"

definition getList :: "'a Fields_scheme \<Rightarrow> string \<Rightarrow> string list" where
  "getList d k = (case lsts d k of Some v \<Rightarrow> v | None \<Rightarrow> [])"

text \<open>
  \<^verbatim>\<open>v, ok := d.GetOk(k)\<close>: \<open>ok\<close> holds when the attribute is set to a value other than
  the zero value of its type (the empty string, the empty list, the empty set). The
  handlers read \<open>v\<close> only under \<open>ok\<close>, so the result is \<open>Some v\<close> for \<open>ok\<close>.
\<close>

definition GetOkString :: "'a Fields_scheme \<Rightarrow> string \<Rightarrow> string option" where
  "GetOkString d k = (case strs d k of Some v \<Rightarrow> (if v = [] then None else Some v) | None \<Rightarrow> None)"

definition GetOkList :: "'a Fields_scheme \<Rightarrow> string \<Rightarrow> string list option" where
  "GetOkList d k = (case lsts d k of Some v \<Rightarrow> (if v = [] then None else Some v) | None \<Rightarrow> None)"

definition GetOkTable :: "'a ResourceData_scheme \<Rightarrow> string \<Rightarrow> Row list option" where
  "GetOkTable d k = (case tables d k of Some v \<Rightarrow> (if v = [] then None else Some v) | None \<Rightarrow> None)"

text \<open>\<^verbatim>\<open>d.Set(k, v)\<close> by the type of \<open>v\<close>, and \<^verbatim>\<open>d.SetId\<close>.\<close>

definition SetString :: "ResourceData \<Rightarrow> string \<Rightarrow> string \<Rightarrow> ResourceData" where
  "SetString d k v = d\<lparr>strs := (strs d)(k \<mapsto> v)\<rparr>"

definition SetBool :: "ResourceData \<Rightarrow> string \<Rightarrow> bool \<Rightarrow> ResourceData" where
  "SetBool d k v = d\<lparr>bls := (bls d)(k \<mapsto> v)\<rparr>"

definition SetInt :: "ResourceData \<Rightarrow> string \<Rightarrow> int \<Rightarrow> ResourceData" where
  "SetInt d k v = d\<lparr>nums := (nums d)(k \<mapsto> v)\<rparr>"

definition SetList :: "ResourceData \<Rightarrow> string \<Rightarrow> string list \<Rightarrow> ResourceData" where
  "SetList d k v = d\<lparr>lsts := (lsts d)(k \<mapsto> v)\<rparr>"

definition SetTable :: "ResourceData \<Rightarrow> string \<Rightarrow> Row list \<Rightarrow> ResourceData" where
  "SetTable d k v = d\<lparr>tables := (tables d)(k \<mapsto> v)\<rparr>"

definition SetId :: "ResourceData \<Rightarrow> string \<Rightarrow> ResourceData" where
  "SetId d v = d\<lparr>Id := v\<rparr>"

section \<open>Helpers of the provider\<close>

text \<open>The quotation mark that the error messages put around an object's name.\<close>

definition quote :: string where
  "quote = [CHR 0x27]"

text \<open>A row struct or row map with no field set (\<^verbatim>\<open>vtm.T{}\<close>, \<^verbatim>\<open>make(map[string]interface{})\<close>).\<close>

definition nilFields :: Fields where
  "nilFields = \<lparr>strs = Map.empty, bls = Map.empty, nums = Map.empty, lsts = Map.empty\<rparr>"

text \<open>
  Assigning the address of a value to a pointer field:
  \<^verbatim>\<open>VtmObject.F = getStringAddr(v)\<close>, \<^verbatim>\<open>getBoolAddr\<close>, \<^verbatim>\<open>getIntAddr\<close>,
  \<^verbatim>\<open>getStringListAddr\<close>.
\<close>

definition putString :: "string \<Rightarrow> string \<Rightarrow> 'a Fields_scheme \<Rightarrow> 'a Fields_scheme" where
  "putString f v obj = obj\<lparr>strs := (strs obj)(f \<mapsto> v)\<rparr>"

definition putBool :: "string \<Rightarrow> bool \<Rightarrow> 'a Fields_scheme \<Rightarrow> 'a Fields_scheme" where
  "putBool f v obj = obj\<lparr>bls := (bls obj)(f \<mapsto> v)\<rparr>"

definition putInt :: "string \<Rightarrow> int \<Rightarrow> 'a Fields_scheme \<Rightarrow> 'a Fields_scheme" where
  "putInt f v obj = obj\<lparr>nums := (nums obj)(f \<mapsto> v)\<rparr>"

definition putList :: "string \<Rightarrow> string list \<Rightarrow> 'a Fields_scheme \<Rightarrow> 'a Fields_scheme" where
  "putList f v obj = obj\<lparr>lsts := (lsts obj)(f \<mapsto> v)\<rparr>"

definition expandStringList :: "string list \<Rightarrow> string list" where
  \<comment> \<open>Modelled from the spec: the helper \<^verbatim>\<open>expandStringList\<close> is not among the source
      files. It turns the framework's \<^verbatim>\<open>[]interface{}\<close> of strings into \<^verbatim>\<open>[]string\<close>
      (spec 4.1: convert each entry to the remote shape); on typed lists it changes
      nothing.\<close>
  "expandStringList configured = configured"

text \<open>
  The setters \<^verbatim>\<open>setString(&object.P, d, k)\<close>, \<^verbatim>\<open>setBool\<close>, \<^verbatim>\<open>setInt\<close> and
  \<^verbatim>\<open>setStringList\<close> act on the object under construction and on \<open>d\<close>; a handler is a
  sequence of such steps on the pair of both.
\<close>

fun setString :: "string \<Rightarrow> string \<Rightarrow> Object \<times> ResourceData \<Rightarrow> Object \<times> ResourceData" where
  \<comment> \<open>Modelled from the spec: the helper \<^verbatim>\<open>setString\<close> is not among the source files.
      Spec 1: read fields off the \<open>ResourceData\<close> object into the client object.\<close>
  "setString path key (object, d) = (putString path (getString d key) object, d)"

fun setBool :: "string \<Rightarrow> string \<Rightarrow> Object \<times> ResourceData \<Rightarrow> Object \<times> ResourceData" where
  \<comment> \<open>Modelled from the spec: the helper \<^verbatim>\<open>setBool\<close> is not among the source files.\<close>
  "setBool path key (object, d) = (putBool path (getBool d key) object, d)"

fun setInt :: "string \<Rightarrow> string \<Rightarrow> Object \<times> ResourceData \<Rightarrow> Object \<times> ResourceData" where
  \<comment> \<open>Modelled from the spec: the helper \<^verbatim>\<open>setInt\<close> is not among the source files.\<close>
  "setInt path key (object, d) = (putInt path (getInt d key) object, d)"

fun setStringList :: "string \<Rightarrow> string \<Rightarrow> Object \<times> ResourceData \<Rightarrow> Object \<times> ResourceData" where
  \<comment> \<open>Modelled from the spec: the helper \<^verbatim>\<open>setStringList\<close> is not among the source
      files.\<close>
  "setStringList path key (object, d) = (putList path (expandStringList (getList d key)) object, d)"

text \<open>
  Go's \<^verbatim>\<open>strings.HasPrefix\<close>, \<^verbatim>\<open>strings.HasSuffix\<close> and \<^verbatim>\<open>strings.Contains\<close>,
  on byte strings.
\<close>

fun HasPrefix :: "string \<Rightarrow> string \<Rightarrow> bool" where
  "HasPrefix s [] = True"
| "HasPrefix [] (p # ps) = False"
| "HasPrefix (c # s) (p # ps) = (c = p \<and> HasPrefix s ps)"

definition HasSuffix :: "string \<Rightarrow> string \<Rightarrow> bool" where
  "HasSuffix s sfx = HasPrefix (rev s) (rev sfx)"

fun Contains :: "string \<Rightarrow> string \<Rightarrow> bool" where
  "Contains [] substr = (substr = [])"
| "Contains (c # s) substr = (HasPrefix (c # s) substr \<or> Contains s substr)"

definition getStringListStartingWith :: "string list \<Rightarrow> string \<Rightarrow> string list" where
  \<comment> \<open>Modelled from the spec: the helper \<^verbatim>\<open>getStringListStartingWith\<close> is not among the
      source files. Spec 4.2: given a sequence of strings and the predicate
      \<open>starts_with\<close>, return the subsequence satisfying it.\<close>
  "getStringListStartingWith xs startsWith = filter (\<lambda>item. HasPrefix item startsWith) xs"

definition getStringListEndingWith :: "string list \<Rightarrow> string \<Rightarrow> string list" where
  \<comment> \<open>Modelled from the spec: the helper \<^verbatim>\<open>getStringListEndingWith\<close> is not among the
      source files. Spec 4.2, predicate \<open>ends_with\<close>.\<close>
  "getStringListEndingWith xs endsWith = filter (\<lambda>item. HasSuffix item endsWith) xs"

definition getStringListContaining :: "string list \<Rightarrow> string \<Rightarrow> string list" where
  \<comment> \<open>Modelled from the spec: the helper \<^verbatim>\<open>getStringListContaining\<close> is not among the
      source files. Spec 4.2, predicate \<open>contains\<close>.\<close>
  "getStringListContaining xs substr = filter (\<lambda>item. Contains item substr) xs"

definition getStringListMatchingRegex ::
  "Externals \<Rightarrow> string list \<Rightarrow> string \<Rightarrow> string + string list" where
  \<comment> \<open>Modelled from the spec: the helper \<^verbatim>\<open>getStringListMatchingRegex\<close> is not among the
      source files. Spec 4.2, predicate \<open>regex_match\<close>; a pattern that does not compile
      surfaces as an error.\<close>
  "getStringListMatchingRegex ext xs pattern =
     (case regexp_Compile ext pattern of
        Inl err \<Rightarrow> Inl err
      | Inr matches \<Rightarrow> Inr (filter matches xs))"

section \<open>The blocks that the handlers repeat\<close>

text \<open>
  The handlers are generated code: one block of source text recurs, letter for letter up
  to the names, for every attribute of a kind. Each block is one step here, with the names
  as its arguments.

  A string-list attribute in Create and Update (for example \<open>resourceGlbServiceCreate\<close>,
  attribute \<open>domains\<close>):
  \<^verbatim>\<open>
  if _, ok := d.GetOk("domains"); ok {
      setStringList(&object.Basic.Domains, d, "domains")
  } else {
      object.Basic.Domains = &[]string{}
      d.Set("domains", []string(*object.Basic.Domains))
  }
  \<close>
  The literal in the else branch is the argument \<open>dflt\<close>.
\<close>

fun stringListBlock ::
  "string \<Rightarrow> string \<Rightarrow> string list \<Rightarrow> Object \<times> ResourceData \<Rightarrow> Object \<times> ResourceData" where
  "stringListBlock path key dflt (object, d) =
     (case GetOkList d key of
        Some _ \<Rightarrow> setStringList path key (object, d)
      | None \<Rightarrow>
          (let object = putList path dflt object
           in (object, SetList d key (getList object path))))"

text \<open>
  A table attribute with its JSON shadow in Create and Update (for example
  \<open>resourceGlbServiceCreate\<close>, attribute \<open>dnssec_keys\<close>):
  \<^verbatim>\<open>
  object.Basic.DnssecKeys = &vtm.GlbServiceDnssecKeysTable{}
  if dnssecKeysJson, ok := d.GetOk("dnssec_keys_json"); ok {
      _ = json.Unmarshal([]byte(dnssecKeysJson.(string)), object.Basic.DnssecKeys)
  } else if dnssecKeys, ok := d.GetOk("dnssec_keys"); ok {
      for _, row := range dnssecKeys.(*schema.Set).List() {
          itemTerraform := row.(map[string]interface{})
          VtmObject := vtm.GlbServiceDnssecKeys{}
          ...
          *object.Basic.DnssecKeys = append(*object.Basic.DnssecKeys, VtmObject)
      }
      d.Set("dnssec_keys", dnssecKeys)
  } else {
      d.Set("dnssec_keys", make([]map[string]interface{}, 0, len(*object.Basic.DnssecKeys)))
  }
  \<close>
  The arguments are the Go type of the table (\<open>tableType\<close>), the body of the loop up to
  the append (\<open>fromRow\<close>), the path of the field and the two attribute names. The table
  behind the fresh pointer is empty; \<open>appendRows\<close> is the loop.
\<close>

fun appendRows :: "(Row \<Rightarrow> VtmRow) \<Rightarrow> VtmRow list \<Rightarrow> Row list \<Rightarrow> VtmRow list" where
  "appendRows fromRow tbl [] = tbl"
| "appendRows fromRow tbl (row # rows) = appendRows fromRow (tbl @ [fromRow row]) rows"

definition getTable :: "Object \<Rightarrow> string \<Rightarrow> VtmRow list" where
  "getTable object path = (case tbls object path of Some tbl \<Rightarrow> tbl | None \<Rightarrow> [])"

definition putTable :: "string \<Rightarrow> VtmRow list \<Rightarrow> Object \<Rightarrow> Object" where
  "putTable path tbl object = object\<lparr>tbls := (tbls object)(path \<mapsto> tbl)\<rparr>"

fun tableBlock ::
  "Externals \<Rightarrow> string \<Rightarrow> (Row \<Rightarrow> VtmRow) \<Rightarrow> string \<Rightarrow> string \<Rightarrow> string \<Rightarrow>
   Object \<times> ResourceData \<Rightarrow> Object \<times> ResourceData" where
  "tableBlock ext tableType fromRow path jsonKey key (object, d) =
     (let object = putTable path [] object
      in case GetOkString d jsonKey of
           Some json \<Rightarrow>
             (let (err, tbl) = json_Unmarshal ext tableType json (getTable object path)
              in (putTable path tbl object, d))
         | None \<Rightarrow>
             (case GetOkTable d key of
                Some rows \<Rightarrow>
                  (putTable path (appendRows fromRow (getTable object path) rows) object,
                   SetTable d key rows)
              | None \<Rightarrow> (object, SetTable d key [])))"

text \<open>
  The steps of Read. \<^verbatim>\<open>d.Set(k, T(*object.P))\<close> dereferences the pointer: on nil the
  program panics, which is the result \<open>None\<close> of the step.
\<close>

definition readString :: "string \<Rightarrow> string \<Rightarrow> Object \<Rightarrow> ResourceData \<Rightarrow> ResourceData option" where
  "readString key path object d =
     (case strs object path of None \<Rightarrow> None | Some v \<Rightarrow> Some (SetString d key v))"

definition readBool :: "string \<Rightarrow> string \<Rightarrow> Object \<Rightarrow> ResourceData \<Rightarrow> ResourceData option" where
  "readBool key path object d =
     (case bls object path of None \<Rightarrow> None | Some v \<Rightarrow> Some (SetBool d key v))"

definition readInt :: "string \<Rightarrow> string \<Rightarrow> Object \<Rightarrow> ResourceData \<Rightarrow> ResourceData option" where
  "readInt key path object d =
     (case nums object path of None \<Rightarrow> None | Some v \<Rightarrow> Some (SetInt d key v))"

definition readList :: "string \<Rightarrow> string \<Rightarrow> Object \<Rightarrow> ResourceData \<Rightarrow> ResourceData option" where
  "readList key path object d =
     (case lsts object path of None \<Rightarrow> None | Some v \<Rightarrow> Some (SetList d key v))"

text \<open>
  A field of a table row in Read:
  \<^verbatim>\<open>if item.Domain != nil { itemTerraform["domain"] = string(*item.Domain) }\<close>.
\<close>

definition copyString :: "string \<Rightarrow> string \<Rightarrow> VtmRow \<Rightarrow> Row \<Rightarrow> Row" where
  "copyString key field item itemTerraform =
     (case strs item field of Some v \<Rightarrow> putString key v itemTerraform | None \<Rightarrow> itemTerraform)"

definition copyBool :: "string \<Rightarrow> string \<Rightarrow> VtmRow \<Rightarrow> Row \<Rightarrow> Row" where
  "copyBool key field item itemTerraform =
     (case bls item field of Some v \<Rightarrow> putBool key v itemTerraform | None \<Rightarrow> itemTerraform)"

definition copyInt :: "string \<Rightarrow> string \<Rightarrow> VtmRow \<Rightarrow> Row \<Rightarrow> Row" where
  "copyInt key field item itemTerraform =
     (case nums item field of Some v \<Rightarrow> putInt key v itemTerraform | None \<Rightarrow> itemTerraform)"

definition copyList :: "string \<Rightarrow> string \<Rightarrow> VtmRow \<Rightarrow> Row \<Rightarrow> Row" where
  "copyList key field item itemTerraform =
     (case lsts item field of Some v \<Rightarrow> putList key v itemTerraform | None \<Rightarrow> itemTerraform)"

text \<open>
  A table attribute in Read (for example \<open>resourceGlbServiceRead\<close>, \<open>dnssec_keys\<close>):
  \<^verbatim>\<open>
  dnssecKeys := make([]map[string]interface{}, 0, len(*object.Basic.DnssecKeys))
  for _, item := range *object.Basic.DnssecKeys {
      itemTerraform := make(map[string]interface{})
      ...
      dnssecKeys = append(dnssecKeys, itemTerraform)
  }
  d.Set("dnssec_keys", dnssecKeys)
  dnssecKeysJson, _ := json.Marshal(dnssecKeys)
  d.Set("dnssec_keys_json", dnssecKeysJson)
  \<close>
\<close>

fun appendItems :: "(VtmRow \<Rightarrow> Row) \<Rightarrow> Row list \<Rightarrow> VtmRow list \<Rightarrow> Row list" where
  "appendItems fromItem acc [] = acc"
| "appendItems fromItem acc (item # items) = appendItems fromItem (acc @ [fromItem item]) items"

definition readTable ::
  "Externals \<Rightarrow> string \<Rightarrow> string \<Rightarrow> string \<Rightarrow> (VtmRow \<Rightarrow> Row) \<Rightarrow> Object \<Rightarrow> ResourceData \<Rightarrow>
   ResourceData option" where
  "readTable ext key jsonKey path fromItem object d =
     (case tbls object path of
        None \<Rightarrow> None
      | Some tbl \<Rightarrow>
          (let rows = appendItems fromItem [] tbl;
               d = SetTable d key rows;
               rowsJson = json_Marshal ext rows;
               d = SetBytes ext d jsonKey rowsJson
           in Some d))"

section \<open>Data sources\<close>

text \<open>\<^verbatim>\<open>dataSourceTrafficManagerListRead\<close> (data source \<open>vtm_traffic_manager_list\<close>).\<close>

definition dataSourceTrafficManagerListRead ::
  "Externals \<Rightarrow> ResourceData \<Rightarrow> VirtualTrafficManager \<Rightarrow> Result" where
  "dataSourceTrafficManagerListRead ext d tm =
     (case ListTrafficManagers tm of
        Inl err \<Rightarrow>
          (Some (''Failed to read vtm_traffic_manager_list: '' @ ErrorText err), SetId d [])
      | Inr objectList \<Rightarrow>
          (let objectList =
                 (case GetOkString d ''starts_with'' of
                    Some starts_with \<Rightarrow> getStringListStartingWith objectList starts_with
                  | None \<Rightarrow> objectList);
               objectList =
                 (case GetOkString d ''ends_with'' of
                    Some ends_with \<Rightarrow> getStringListEndingWith objectList ends_with
                  | None \<Rightarrow> objectList);
               objectList =
                 (case GetOkString d ''contains'' of
                    Some contains \<Rightarrow> getStringListContaining objectList contains
                  | None \<Rightarrow> objectList)
           in case GetOkString d ''regex_match'' of
                Some regex_match \<Rightarrow>
                  (case getStringListMatchingRegex ext objectList regex_match of
                     Inl regexErr \<Rightarrow> (Some regexErr, SetId d [])
                   | Inr objectList \<Rightarrow>
                       (None, SetId (SetList d ''object_list'' objectList) ''traffic_manager_list''))
              | None \<Rightarrow>
                  (None, SetId (SetList d ''object_list'' objectList) ''traffic_manager_list'')))"

text \<open>
  The statistics data sources. A Read that dereferences pointers of the fetched object
  returns \<open>None\<close> where the program panics on a nil pointer.
\<close>

definition dataSourceEventStatisticsRead ::
  "ResourceData \<Rightarrow> VirtualTrafficManager \<Rightarrow> Result option" where
  "dataSourceEventStatisticsRead d tm =
     (let objectName = getString d ''name''
      in case GetEventStatistics tm objectName of
           Inl err \<Rightarrow>
             (if ErrorId err = ''resource.not_found'' then Some (None, SetId d [])
              else Some (Some (''Failed to read vtm_events '' @ quote @ objectName @ quote
                                 @ '': '' @ ErrorText err), d))
         | Inr object \<Rightarrow> do {
            d \<leftarrow> readInt ''matched'' ''Statistics.Matched'' object d;
            Some (None, SetId d objectName)
           })"

definition dataSourceExtrasUserCounters64StatisticsRead ::
  "ResourceData \<Rightarrow> VirtualTrafficManager \<Rightarrow> Result option" where
  "dataSourceExtrasUserCounters64StatisticsRead d tm =
     (case GetExtrasUserCounters64Statistics tm of
        Inl err \<Rightarrow> Some (Some (''Failed to read vtm_user_counters_64: '' @ ErrorText err), d)
      | Inr object \<Rightarrow> do {
            d \<leftarrow> readInt ''counter'' ''Statistics.Counter'' object d;
            Some (None, SetId d ''user_counters_64'')
           })"

definition dataSourceListenIpStatisticsRead ::
  "ResourceData \<Rightarrow> VirtualTrafficManager \<Rightarrow> Result option" where
  "dataSourceListenIpStatisticsRead d tm =
     (let objectName = getString d ''name''
      in case GetListenIpStatistics tm objectName of
           Inl err \<Rightarrow>
             (if ErrorId err = ''resource.not_found'' then Some (None, SetId d [])
              else Some (Some (''Failed to read vtm_listen_ips '' @ quote @ objectName @ quote
                                 @ '': '' @ ErrorText err), d))
         | Inr object \<Rightarrow> do {
            d \<leftarrow> readInt ''bytes_in'' ''Statistics.BytesIn'' object d;
            d \<leftarrow> readInt ''bytes_out'' ''Statistics.BytesOut'' object d;
            d \<leftarrow> readInt ''current_conn'' ''Statistics.CurrentConn'' object d;
            d \<leftarrow> readInt ''max_conn'' ''Statistics.MaxConn'' object d;
            d \<leftarrow> readInt ''total_requests'' ''Statistics.TotalRequests'' object d;
            Some (None, SetId d objectName)
           })"

section \<open>Resource \<open>vtm_glb_service\<close>\<close>

text \<open>The loop bodies of Create and Update: one row of the set to one row struct.\<close>

definition row_GlbServiceDnssecKeys :: "Row \<Rightarrow> VtmRow" where
  "row_GlbServiceDnssecKeys itemTerraform =
     (let VtmObject = nilFields;
          VtmObject = putString ''Domain'' (getString itemTerraform ''domain'') VtmObject;
          VtmObject = putList ''SslKey''
                (expandStringList (getList itemTerraform ''ssl_key'')) VtmObject
      in VtmObject)"

definition row_GlbServiceLocationSettings :: "Row \<Rightarrow> VtmRow" where
  "row_GlbServiceLocationSettings itemTerraform =
     (let VtmObject = nilFields;
          VtmObject = putList ''Ips'' (expandStringList (getList itemTerraform ''ips'')) VtmObject;
          VtmObject = putString ''Location'' (getString itemTerraform ''location'') VtmObject;
          VtmObject = putList ''Monitors''
                (expandStringList (getList itemTerraform ''monitors'')) VtmObject;
          VtmObject = putInt ''Weight'' (getInt itemTerraform ''weight'') VtmObject
      in VtmObject)"

text \<open>The loop bodies of Read: one row struct to one row of the attribute.\<close>

definition item_Basic_DnssecKeys :: "VtmRow \<Rightarrow> Row" where
  "item_Basic_DnssecKeys item =
     (let itemTerraform = nilFields;
          itemTerraform = copyString ''domain'' ''Domain'' item itemTerraform;
          itemTerraform = copyList ''ssl_key'' ''SslKey'' item itemTerraform
      in itemTerraform)"

definition item_Basic_LocationSettings :: "VtmRow \<Rightarrow> Row" where
  "item_Basic_LocationSettings item =
     (let itemTerraform = nilFields;
          itemTerraform = copyList ''ips'' ''Ips'' item itemTerraform;
          itemTerraform = copyString ''location'' ''Location'' item itemTerraform;
          itemTerraform = copyList ''monitors'' ''Monitors'' item itemTerraform;
          itemTerraform = copyInt ''weight'' ''Weight'' item itemTerraform
      in itemTerraform)"

definition resourceGlbServiceRead ::
  "Externals \<Rightarrow> ResourceData \<Rightarrow> VirtualTrafficManager \<Rightarrow> Result option" where
  "resourceGlbServiceRead ext d tm =
     (let objectName = getString d ''name''
      in case GetGlbService tm objectName of
           Inl err \<Rightarrow>
             (if ErrorId err = ''resource.not_found'' then Some (None, SetId d [])
              else Some (Some (''Failed to read vtm_glb_service '' @ quote @ objectName @ quote
                                 @ '': '' @ ErrorText err), d))
         | Inr object \<Rightarrow> do {
            d \<leftarrow> readString ''algorithm'' ''Basic.Algorithm'' object d;
            d \<leftarrow> readBool ''all_monitors_needed'' ''Basic.AllMonitorsNeeded'' object d;
            d \<leftarrow> readBool ''autorecovery'' ''Basic.Autorecovery'' object d;
            d \<leftarrow> readBool ''chained_auto_failback'' ''Basic.ChainedAutoFailback'' object d;
            d \<leftarrow> readList ''chained_location_order'' ''Basic.ChainedLocationOrder'' object d;
            d \<leftarrow> readBool ''disable_on_failure'' ''Basic.DisableOnFailure'' object d;
            d \<leftarrow> readTable ext ''dnssec_keys'' ''dnssec_keys_json''
                  ''Basic.DnssecKeys'' item_Basic_DnssecKeys object d;
            d \<leftarrow> readList ''domains'' ''Basic.Domains'' object d;
            d \<leftarrow> readBool ''enabled'' ''Basic.Enabled'' object d;
            d \<leftarrow> readInt ''geo_effect'' ''Basic.GeoEffect'' object d;
            d \<leftarrow> readList ''last_resort_response'' ''Basic.LastResortResponse'' object d;
            d \<leftarrow> readList ''location_draining'' ''Basic.LocationDraining'' object d;
            d \<leftarrow> readTable ext ''location_settings'' ''location_settings_json''
                  ''Basic.LocationSettings'' item_Basic_LocationSettings object d;
            d \<leftarrow> readBool ''return_ips_on_fail'' ''Basic.ReturnIpsOnFail'' object d;
            d \<leftarrow> readList ''rules'' ''Basic.Rules'' object d;
            d \<leftarrow> readInt ''ttl'' ''Basic.Ttl'' object d;
            d \<leftarrow> readBool ''log_enabled'' ''Log.Enabled'' object d;
            d \<leftarrow> readString ''log_filename'' ''Log.Filename'' object d;
            d \<leftarrow> readString ''log_format'' ''Log.Format'' object d;
            Some (None, SetId d objectName)
           })"

definition resourceGlbServiceExists ::
  "ResourceData \<Rightarrow> VirtualTrafficManager \<Rightarrow> bool \<times> string option" where
  "resourceGlbServiceExists d tm =
     (let objectName = getString d ''name''
      in case GetGlbService tm objectName of
           Inl err \<Rightarrow>
             (if ErrorId err = ''resource.not_found'' then (False, None)
              else (False, Some (ErrorText err)))
         | Inr object \<Rightarrow> (True, None))"

definition resourceGlbServiceCreate ::
  "Externals \<Rightarrow> ResourceData \<Rightarrow> VirtualTrafficManager \<Rightarrow> ApplyResult" where
  "resourceGlbServiceCreate ext d tm =
     (let objectName = getString d ''name'';
          object = NewGlbService tm objectName;
          s = (object, d);
          s = setString ''Basic.Algorithm'' ''algorithm'' s;
          s = setBool ''Basic.AllMonitorsNeeded'' ''all_monitors_needed'' s;
          s = setBool ''Basic.Autorecovery'' ''autorecovery'' s;
          s = setBool ''Basic.ChainedAutoFailback'' ''chained_auto_failback'' s;
          s = stringListBlock ''Basic.ChainedLocationOrder'' ''chained_location_order'' [] s;
          s = setBool ''Basic.DisableOnFailure'' ''disable_on_failure'' s;
          s = stringListBlock ''Basic.Domains'' ''domains'' [] s;
          s = setBool ''Basic.Enabled'' ''enabled'' s;
          s = setInt ''Basic.GeoEffect'' ''geo_effect'' s;
          s = stringListBlock ''Basic.LastResortResponse'' ''last_resort_response'' [] s;
          s = stringListBlock ''Basic.LocationDraining'' ''location_draining'' [] s;
          s = setBool ''Basic.ReturnIpsOnFail'' ''return_ips_on_fail'' s;
          s = stringListBlock ''Basic.Rules'' ''rules'' [] s;
          s = setInt ''Basic.Ttl'' ''ttl'' s;
          s = tableBlock ext ''GlbServiceDnssecKeysTable'' row_GlbServiceDnssecKeys
                ''Basic.DnssecKeys'' ''dnssec_keys_json'' ''dnssec_keys'' s;
          s = tableBlock ext ''GlbServiceLocationSettingsTable'' row_GlbServiceLocationSettings
                ''Basic.LocationSettings'' ''location_settings_json'' ''location_settings'' s;
          s = setBool ''Log.Enabled'' ''log_enabled'' s;
          s = setString ''Log.Filename'' ''log_filename'' s;
          s = setString ''Log.Format'' ''log_format'' s
      in case s of (object, d) \<Rightarrow>
           (let applied = Apply tm object;
                d = SetId d objectName
            in (None, d, Some object)))"

definition resourceGlbServiceUpdate ::
  "Externals \<Rightarrow> ResourceData \<Rightarrow> VirtualTrafficManager \<Rightarrow> ApplyResult" where
  "resourceGlbServiceUpdate ext d tm =
     (let objectName = getString d ''name''
      in case GetGlbService tm objectName of
           Inl err \<Rightarrow>
             (Some (''Failed to update vtm_glb_service '' @ quote @ objectName @ quote
                      @ '': '' @ fmt_v ext err), d, None)
         | Inr object \<Rightarrow>
           (let s = (object, d);
               s = setString ''Basic.Algorithm'' ''algorithm'' s;
               s = setBool ''Basic.AllMonitorsNeeded'' ''all_monitors_needed'' s;
               s = setBool ''Basic.Autorecovery'' ''autorecovery'' s;
               s = setBool ''Basic.ChainedAutoFailback'' ''chained_auto_failback'' s;
               s = stringListBlock ''Basic.ChainedLocationOrder'' ''chained_location_order'' [] s;
               s = setBool ''Basic.DisableOnFailure'' ''disable_on_failure'' s;
               s = stringListBlock ''Basic.Domains'' ''domains'' [] s;
               s = setBool ''Basic.Enabled'' ''enabled'' s;
               s = setInt ''Basic.GeoEffect'' ''geo_effect'' s;
               s = stringListBlock ''Basic.LastResortResponse'' ''last_resort_response'' [] s;
               s = stringListBlock ''Basic.LocationDraining'' ''location_draining'' [] s;
               s = setBool ''Basic.ReturnIpsOnFail'' ''return_ips_on_fail'' s;
               s = stringListBlock ''Basic.Rules'' ''rules'' [] s;
               s = setInt ''Basic.Ttl'' ''ttl'' s;
               s = tableBlock ext ''GlbServiceDnssecKeysTable'' row_GlbServiceDnssecKeys
                     ''Basic.DnssecKeys'' ''dnssec_keys_json'' ''dnssec_keys'' s;
               s = tableBlock ext ''GlbServiceLocationSettingsTable'' row_GlbServiceLocationSettings
                     ''Basic.LocationSettings'' ''location_settings_json'' ''location_settings'' s;
               s = setBool ''Log.Enabled'' ''log_enabled'' s;
               s = setString ''Log.Filename'' ''log_filename'' s;
               s = setString ''Log.Format'' ''log_format'' s
            in case s of (object, d) \<Rightarrow>
                 (let applied = Apply tm object;
                      d = SetId d objectName
                  in (None, d, Some object))))"

definition resourceGlbServiceDelete :: "ResourceData \<Rightarrow> VirtualTrafficManager \<Rightarrow> Result" where
  "resourceGlbServiceDelete d tm =
     (let objectName = getString d ''name''
      in case DeleteGlbService tm objectName of
           Some err \<Rightarrow>
             (Some (''Failed to delete vtm_glb_service '' @ quote @ objectName @ quote
                      @ '': '' @ ErrorText err), d)
         | None \<Rightarrow> (None, SetId d []))"

section \<open>Resource \<open>vtm_security\<close>\<close>

definition resourceSecurityRead ::
  "ResourceData \<Rightarrow> VirtualTrafficManager \<Rightarrow> Result option" where
  "resourceSecurityRead d tm =
     (case GetSecurity tm of
        Inl err \<Rightarrow> Some (Some (''Failed to read vtm_security: '' @ ErrorText err), d)
      | Inr object \<Rightarrow> do {
            d \<leftarrow> readList ''access'' ''Basic.Access'' object d;
            d \<leftarrow> readInt ''ssh_intrusion_bantime'' ''SshIntrusion.Bantime'' object d;
            d \<leftarrow> readList ''ssh_intrusion_blacklist'' ''SshIntrusion.Blacklist'' object d;
            d \<leftarrow> readBool ''ssh_intrusion_enabled'' ''SshIntrusion.Enabled'' object d;
            d \<leftarrow> readInt ''ssh_intrusion_findtime'' ''SshIntrusion.Findtime'' object d;
            d \<leftarrow> readInt ''ssh_intrusion_maxretry'' ''SshIntrusion.Maxretry'' object d;
            d \<leftarrow> readList ''ssh_intrusion_whitelist'' ''SshIntrusion.Whitelist'' object d;
            Some (None, SetId d ''security'')
           })"

text \<open>\<open>resourceSecurityUpdate\<close> serves as Create and as Update of the resource.\<close>

definition resourceSecurityUpdate ::
  "Externals \<Rightarrow> ResourceData \<Rightarrow> VirtualTrafficManager \<Rightarrow> ApplyResult" where
  "resourceSecurityUpdate ext d tm =
     (case GetSecurity tm of
        Inl err \<Rightarrow> (Some (''Failed to update vtm_security: '' @ fmt_v ext err), d, None)
      | Inr object \<Rightarrow>
           (let s = (object, d);
               s = stringListBlock ''Basic.Access'' ''access'' [] s;
               s = setInt ''SshIntrusion.Bantime'' ''ssh_intrusion_bantime'' s;
               s = stringListBlock ''SshIntrusion.Blacklist'' ''ssh_intrusion_blacklist'' [] s;
               s = setBool ''SshIntrusion.Enabled'' ''ssh_intrusion_enabled'' s;
               s = setInt ''SshIntrusion.Findtime'' ''ssh_intrusion_findtime'' s;
               s = setInt ''SshIntrusion.Maxretry'' ''ssh_intrusion_maxretry'' s;
               s = stringListBlock ''SshIntrusion.Whitelist'' ''ssh_intrusion_whitelist'' [] s
            in case s of (object, d) \<Rightarrow>
                 (let applied = Apply tm object;
                      d = SetId d ''security''
                  in (None, d, Some object))))"

definition resourceSecurityDelete :: "ResourceData \<Rightarrow> VirtualTrafficManager \<Rightarrow> Result" where
  "resourceSecurityDelete d tm = (None, SetId d [])"

section \<open>Resource \<open>vtm_traffic_manager\<close>\<close>

text \<open>The loop bodies of Update.\<close>

definition row_TrafficManagerHosts :: "Row \<Rightarrow> VtmRow" where
  "row_TrafficManagerHosts itemTerraform =
     (let VtmObject = nilFields;
          VtmObject = putString ''IpAddress'' (getString itemTerraform ''ip_address'') VtmObject;
          VtmObject = putString ''Name'' (getString itemTerraform ''name'') VtmObject
      in VtmObject)"

definition row_TrafficManagerIf :: "Row \<Rightarrow> VtmRow" where
  "row_TrafficManagerIf itemTerraform =
     (let VtmObject = nilFields;
          VtmObject = putBool ''Autoneg'' (getBool itemTerraform ''autoneg'') VtmObject;
          VtmObject = putString ''Bmode'' (getString itemTerraform ''bmode'') VtmObject;
          VtmObject = putString ''Bond'' (getString itemTerraform ''bond'') VtmObject;
          VtmObject = putBool ''Duplex'' (getBool itemTerraform ''duplex'') VtmObject;
          VtmObject = putString ''Mode'' (getString itemTerraform ''mode'') VtmObject;
          VtmObject = putInt ''Mtu'' (getInt itemTerraform ''mtu'') VtmObject;
          VtmObject = putString ''Name'' (getString itemTerraform ''name'') VtmObject;
          VtmObject = putString ''Speed'' (getString itemTerraform ''speed'') VtmObject
      in VtmObject)"

definition row_TrafficManagerIp :: "Row \<Rightarrow> VtmRow" where
  "row_TrafficManagerIp itemTerraform =
     (let VtmObject = nilFields;
          VtmObject = putString ''Addr'' (getString itemTerraform ''addr'') VtmObject;
          VtmObject = putBool ''Isexternal'' (getBool itemTerraform ''isexternal'') VtmObject;
          VtmObject = putString ''Mask'' (getString itemTerraform ''mask'') VtmObject;
          VtmObject = putString ''Name'' (getString itemTerraform ''name'') VtmObject
      in VtmObject)"

definition row_TrafficManagerRoutes :: "Row \<Rightarrow> VtmRow" where
  "row_TrafficManagerRoutes itemTerraform =
     (let VtmObject = nilFields;
          VtmObject = putString ''Gw'' (getString itemTerraform ''gw'') VtmObject;
          VtmObject = putString ''If'' (getString itemTerraform ''if'') VtmObject;
          VtmObject = putString ''Mask'' (getString itemTerraform ''mask'') VtmObject;
          VtmObject = putString ''Name'' (getString itemTerraform ''name'') VtmObject
      in VtmObject)"

definition row_TrafficManagerApplianceCard :: "Row \<Rightarrow> VtmRow" where
  "row_TrafficManagerApplianceCard itemTerraform =
     (let VtmObject = nilFields;
          VtmObject = putList ''Interfaces''
                (expandStringList (getList itemTerraform ''interfaces'')) VtmObject;
          VtmObject = putString ''Label'' (getString itemTerraform ''label'') VtmObject;
          VtmObject = putString ''Name'' (getString itemTerraform ''name'') VtmObject
      in VtmObject)"

definition row_TrafficManagerApplianceSysctl :: "Row \<Rightarrow> VtmRow" where
  "row_TrafficManagerApplianceSysctl itemTerraform =
     (let VtmObject = nilFields;
          VtmObject = putString ''Description'' (getString itemTerraform ''description'') VtmObject;
          VtmObject = putString ''Sysctl'' (getString itemTerraform ''sysctl'') VtmObject;
          VtmObject = putString ''Value'' (getString itemTerraform ''value'') VtmObject
      in VtmObject)"

definition row_TrafficManagerTrafficip :: "Row \<Rightarrow> VtmRow" where
  "row_TrafficManagerTrafficip itemTerraform =
     (let VtmObject = nilFields;
          VtmObject = putString ''Name'' (getString itemTerraform ''name'') VtmObject;
          VtmObject = putList ''Networks''
                (expandStringList (getList itemTerraform ''networks'')) VtmObject
      in VtmObject)"

text \<open>The loop bodies of Read.\<close>

definition item_Basic_ApplianceCard :: "VtmRow \<Rightarrow> Row" where
  "item_Basic_ApplianceCard item =
     (let itemTerraform = nilFields;
          itemTerraform = copyList ''interfaces'' ''Interfaces'' item itemTerraform;
          itemTerraform = copyString ''label'' ''Label'' item itemTerraform;
          itemTerraform = copyString ''name'' ''Name'' item itemTerraform
      in itemTerraform)"

definition item_Basic_ApplianceSysctl :: "VtmRow \<Rightarrow> Row" where
  "item_Basic_ApplianceSysctl item =
     (let itemTerraform = nilFields;
          itemTerraform = copyString ''description'' ''Description'' item itemTerraform;
          itemTerraform = copyString ''sysctl'' ''Sysctl'' item itemTerraform;
          itemTerraform = copyString ''value'' ''Value'' item itemTerraform
      in itemTerraform)"

definition item_Basic_Trafficip :: "VtmRow \<Rightarrow> Row" where
  "item_Basic_Trafficip item =
     (let itemTerraform = nilFields;
          itemTerraform = copyString ''name'' ''Name'' item itemTerraform;
          itemTerraform = copyList ''networks'' ''Networks'' item itemTerraform
      in itemTerraform)"

definition item_Appliance_Hosts :: "VtmRow \<Rightarrow> Row" where
  "item_Appliance_Hosts item =
     (let itemTerraform = nilFields;
          itemTerraform = copyString ''ip_address'' ''IpAddress'' item itemTerraform;
          itemTerraform = copyString ''name'' ''Name'' item itemTerraform
      in itemTerraform)"

definition item_Appliance_If :: "VtmRow \<Rightarrow> Row" where
  "item_Appliance_If item =
     (let itemTerraform = nilFields;
          itemTerraform = copyBool ''autoneg'' ''Autoneg'' item itemTerraform;
          itemTerraform = copyString ''bmode'' ''Bmode'' item itemTerraform;
          itemTerraform = copyString ''bond'' ''Bond'' item itemTerraform;
          itemTerraform = copyBool ''duplex'' ''Duplex'' item itemTerraform;
          itemTerraform = copyString ''mode'' ''Mode'' item itemTerraform;
          itemTerraform = copyInt ''mtu'' ''Mtu'' item itemTerraform;
          itemTerraform = copyString ''name'' ''Name'' item itemTerraform;
          itemTerraform = copyString ''speed'' ''Speed'' item itemTerraform
      in itemTerraform)"

definition item_Appliance_Ip :: "VtmRow \<Rightarrow> Row" where
  "item_Appliance_Ip item =
     (let itemTerraform = nilFields;
          itemTerraform = copyString ''addr'' ''Addr'' item itemTerraform;
          itemTerraform = copyBool ''isexternal'' ''Isexternal'' item itemTerraform;
          itemTerraform = copyString ''mask'' ''Mask'' item itemTerraform;
          itemTerraform = copyString ''name'' ''Name'' item itemTerraform
      in itemTerraform)"

definition item_Appliance_Routes :: "VtmRow \<Rightarrow> Row" where
  "item_Appliance_Routes item =
     (let itemTerraform = nilFields;
          itemTerraform = copyString ''gw'' ''Gw'' item itemTerraform;
          itemTerraform = copyString ''if'' ''If'' item itemTerraform;
          itemTerraform = copyString ''mask'' ''Mask'' item itemTerraform;
          itemTerraform = copyString ''name'' ''Name'' item itemTerraform
      in itemTerraform)"

definition resourceTrafficManagerRead ::
  "Externals \<Rightarrow> ResourceData \<Rightarrow> VirtualTrafficManager \<Rightarrow> Result option" where
  "resourceTrafficManagerRead ext d tm =
     (let objectName = getString d ''name''
      in case GetTrafficManager tm objectName of
           Inl err \<Rightarrow>
             (if ErrorId err = ''resource.not_found'' then Some (None, SetId d [])
              else Some (Some (''Failed to read vtm_traffic_manager '' @ quote @ objectName @ quote
                                 @ '': '' @ ErrorText err), d))
         | Inr object \<Rightarrow> do {
            d \<leftarrow> readString ''adminmasterxmlip'' ''Basic.Adminmasterxmlip'' object d;
            d \<leftarrow> readString ''adminslavexmlip'' ''Basic.Adminslavexmlip'' object d;
            d \<leftarrow> readTable ext ''appliance_card'' ''appliance_card_json''
                  ''Basic.ApplianceCard'' item_Basic_ApplianceCard object d;
            d \<leftarrow> readTable ext ''appliance_sysctl'' ''appliance_sysctl_json''
                  ''Basic.ApplianceSysctl'' item_Basic_ApplianceSysctl object d;
            d \<leftarrow> readString ''authenticationserverip'' ''Basic.Authenticationserverip'' object d;
            d \<leftarrow> readString ''cloud_platform'' ''Basic.CloudPlatform'' object d;
            d \<leftarrow> readString ''location'' ''Basic.Location'' object d;
            d \<leftarrow> readString ''nameip'' ''Basic.Nameip'' object d;
            d \<leftarrow> readInt ''num_aptimizer_threads'' ''Basic.NumAptimizerThreads'' object d;
            d \<leftarrow> readInt ''num_children'' ''Basic.NumChildren'' object d;
            d \<leftarrow> readInt ''numberofcpus'' ''Basic.Numberofcpus'' object d;
            d \<leftarrow> readInt ''restserverport'' ''Basic.Restserverport'' object d;
            d \<leftarrow> readTable ext ''trafficip'' ''trafficip_json''
                  ''Basic.Trafficip'' item_Basic_Trafficip object d;
            d \<leftarrow> readString ''updaterip'' ''Basic.Updaterip'' object d;
            d \<leftarrow> readBool ''appliance_disable_kpti'' ''Appliance.DisableKpti'' object d;
            d \<leftarrow> readString ''appliance_gateway_ipv4'' ''Appliance.GatewayIpv4'' object d;
            d \<leftarrow> readString ''appliance_gateway_ipv6'' ''Appliance.GatewayIpv6'' object d;
            d \<leftarrow> readString ''appliance_hostname'' ''Appliance.Hostname'' object d;
            d \<leftarrow> readTable ext ''appliance_hosts'' ''appliance_hosts_json''
                  ''Appliance.Hosts'' item_Appliance_Hosts object d;
            d \<leftarrow> readTable ext ''appliance_if'' ''appliance_if_json''
                  ''Appliance.If'' item_Appliance_If object d;
            d \<leftarrow> readTable ext ''appliance_ip'' ''appliance_ip_json''
                  ''Appliance.Ip'' item_Appliance_Ip object d;
            d \<leftarrow> readBool ''appliance_ipmi_lan_access'' ''Appliance.IpmiLanAccess'' object d;
            d \<leftarrow> readString ''appliance_ipmi_lan_addr'' ''Appliance.IpmiLanAddr'' object d;
            d \<leftarrow> readString ''appliance_ipmi_lan_gateway'' ''Appliance.IpmiLanGateway'' object d;
            d \<leftarrow> readString ''appliance_ipmi_lan_ipsrc'' ''Appliance.IpmiLanIpsrc'' object d;
            d \<leftarrow> readString ''appliance_ipmi_lan_mask'' ''Appliance.IpmiLanMask'' object d;
            d \<leftarrow> readBool ''appliance_ipv4_forwarding'' ''Appliance.Ipv4Forwarding'' object d;
            d \<leftarrow> readBool ''appliance_ipv6_forwarding'' ''Appliance.Ipv6Forwarding'' object d;
            d \<leftarrow> readBool ''appliance_licence_agreed'' ''Appliance.LicenceAgreed'' object d;
            d \<leftarrow> readBool ''appliance_manageazureroutes'' ''Appliance.Manageazureroutes'' object d;
            d \<leftarrow> readBool ''appliance_managedpa'' ''Appliance.Managedpa'' object d;
            d \<leftarrow> readBool ''appliance_manageec2conf'' ''Appliance.Manageec2Conf'' object d;
            d \<leftarrow> readBool ''appliance_manageiptrans'' ''Appliance.Manageiptrans'' object d;
            d \<leftarrow> readBool ''appliance_managereservedports'' ''Appliance.Managereservedports'' object d;
            d \<leftarrow> readBool ''appliance_managereturnpath'' ''Appliance.Managereturnpath'' object d;
            d \<leftarrow> readBool ''appliance_manageservices'' ''Appliance.Manageservices'' object d;
            d \<leftarrow> readBool ''appliance_managevpcconf'' ''Appliance.Managevpcconf'' object d;
            d \<leftarrow> readList ''appliance_name_servers'' ''Appliance.NameServers'' object d;
            d \<leftarrow> readList ''appliance_ntpservers'' ''Appliance.Ntpservers'' object d;
            d \<leftarrow> readTable ext ''appliance_routes'' ''appliance_routes_json''
                  ''Appliance.Routes'' item_Appliance_Routes object d;
            d \<leftarrow> readList ''appliance_search_domains'' ''Appliance.SearchDomains'' object d;
            d \<leftarrow> readBool ''appliance_ssh_enabled'' ''Appliance.SshEnabled'' object d;
            d \<leftarrow> readBool ''appliance_ssh_password_allowed'' ''Appliance.SshPasswordAllowed'' object d;
            d \<leftarrow> readInt ''appliance_ssh_port'' ''Appliance.SshPort'' object d;
            d \<leftarrow> readString ''appliance_timezone'' ''Appliance.Timezone'' object d;
            d \<leftarrow> readList ''appliance_vlans'' ''Appliance.Vlans'' object d;
            d \<leftarrow> readBool ''cluster_comms_allow_update'' ''ClusterComms.AllowUpdate'' object d;
            d \<leftarrow> readString ''cluster_comms_bind_ip'' ''ClusterComms.BindIp'' object d;
            d \<leftarrow> readString ''cluster_comms_external_ip'' ''ClusterComms.ExternalIp'' object d;
            d \<leftarrow> readInt ''cluster_comms_port'' ''ClusterComms.Port'' object d;
            d \<leftarrow> readList ''ec2_trafficips_public_enis'' ''Ec2.TrafficipsPublicEnis'' object d;
            d \<leftarrow> readString ''fault_tolerance_bgp_router_id'' ''FaultTolerance.BgpRouterId'' object d;
            d \<leftarrow> readList ''fault_tolerance_lss_dedicated_ips'' ''FaultTolerance.LssDedicatedIps'' object d;
            d \<leftarrow> readString ''fault_tolerance_ospfv2_ip'' ''FaultTolerance.Ospfv2Ip'' object d;
            d \<leftarrow> readList ''fault_tolerance_ospfv2_neighbor_addrs'' ''FaultTolerance.Ospfv2NeighborAddrs'' object d;
            d \<leftarrow> readBool ''iptables_config_enabled'' ''Iptables.ConfigEnabled'' object d;
            d \<leftarrow> readInt ''iptrans_fwmark'' ''Iptrans.Fwmark'' object d;
            d \<leftarrow> readBool ''iptrans_iptables_enabled'' ''Iptrans.IptablesEnabled'' object d;
            d \<leftarrow> readInt ''iptrans_routing_table'' ''Iptrans.RoutingTable'' object d;
            d \<leftarrow> readInt ''java_port'' ''Java.Port'' object d;
            d \<leftarrow> readString ''remote_licensing_email_address'' ''RemoteLicensing.EmailAddress'' object d;
            d \<leftarrow> readString ''remote_licensing_message'' ''RemoteLicensing.Message'' object d;
            d \<leftarrow> readList ''rest_api_bind_ips'' ''RestApi.BindIps'' object d;
            d \<leftarrow> readInt ''rest_api_port'' ''RestApi.Port'' object d;
            d \<leftarrow> readList ''snmp_allow'' ''Snmp.Allow'' object d;
            d \<leftarrow> readString ''snmp_auth_password'' ''Snmp.AuthPassword'' object d;
            d \<leftarrow> readString ''snmp_bind_ip'' ''Snmp.BindIp'' object d;
            d \<leftarrow> readString ''snmp_community'' ''Snmp.Community'' object d;
            d \<leftarrow> readBool ''snmp_enabled'' ''Snmp.Enabled'' object d;
            d \<leftarrow> readString ''snmp_hash_algorithm'' ''Snmp.HashAlgorithm'' object d;
            d \<leftarrow> readString ''snmp_port'' ''Snmp.Port'' object d;
            d \<leftarrow> readString ''snmp_priv_password'' ''Snmp.PrivPassword'' object d;
            d \<leftarrow> readString ''snmp_security_level'' ''Snmp.SecurityLevel'' object d;
            d \<leftarrow> readString ''snmp_username'' ''Snmp.Username'' object d;
            Some (None, SetId d objectName)
           })"

text \<open>\<open>resourceTrafficManagerUpdate\<close> serves as Create and as Update of the resource.\<close>

definition resourceTrafficManagerUpdate ::
  "Externals \<Rightarrow> ResourceData \<Rightarrow> VirtualTrafficManager \<Rightarrow> ApplyResult" where
  "resourceTrafficManagerUpdate ext d tm =
     (let objectName = getString d ''name''
      in case GetTrafficManager tm objectName of
           Inl err \<Rightarrow>
             (Some (''Failed to update vtm_traffic_manager '' @ quote @ objectName @ quote
                      @ '': '' @ fmt_v ext err), d, None)
         | Inr object \<Rightarrow>
           (let s = (object, d);
               s = setString ''Basic.Adminmasterxmlip'' ''adminmasterxmlip'' s;
               s = setString ''Basic.Adminslavexmlip'' ''adminslavexmlip'' s;
               s = setString ''Basic.Authenticationserverip'' ''authenticationserverip'' s;
               s = setString ''Basic.CloudPlatform'' ''cloud_platform'' s;
               s = setString ''Basic.Location'' ''location'' s;
               s = setString ''Basic.Nameip'' ''nameip'' s;
               s = setInt ''Basic.NumAptimizerThreads'' ''num_aptimizer_threads'' s;
               s = setInt ''Basic.NumChildren'' ''num_children'' s;
               s = setInt ''Basic.Numberofcpus'' ''numberofcpus'' s;
               s = setInt ''Basic.Restserverport'' ''restserverport'' s;
               s = setString ''Basic.Updaterip'' ''updaterip'' s;
               s = setBool ''Appliance.DisableKpti'' ''appliance_disable_kpti'' s;
               s = setString ''Appliance.GatewayIpv4'' ''appliance_gateway_ipv4'' s;
               s = setString ''Appliance.GatewayIpv6'' ''appliance_gateway_ipv6'' s;
               s = setString ''Appliance.Hostname'' ''appliance_hostname'' s;
               s = tableBlock ext ''TrafficManagerHostsTable'' row_TrafficManagerHosts
                     ''Appliance.Hosts'' ''appliance_hosts_json'' ''appliance_hosts'' s;
               s = tableBlock ext ''TrafficManagerIfTable'' row_TrafficManagerIf
                     ''Appliance.If'' ''appliance_if_json'' ''appliance_if'' s;
               s = tableBlock ext ''TrafficManagerIpTable'' row_TrafficManagerIp
                     ''Appliance.Ip'' ''appliance_ip_json'' ''appliance_ip'' s;
               s = setBool ''Appliance.IpmiLanAccess'' ''appliance_ipmi_lan_access'' s;
               s = setString ''Appliance.IpmiLanAddr'' ''appliance_ipmi_lan_addr'' s;
               s = setString ''Appliance.IpmiLanGateway'' ''appliance_ipmi_lan_gateway'' s;
               s = setString ''Appliance.IpmiLanIpsrc'' ''appliance_ipmi_lan_ipsrc'' s;
               s = setString ''Appliance.IpmiLanMask'' ''appliance_ipmi_lan_mask'' s;
               s = setBool ''Appliance.Ipv4Forwarding'' ''appliance_ipv4_forwarding'' s;
               s = setBool ''Appliance.Ipv6Forwarding'' ''appliance_ipv6_forwarding'' s;
               s = setBool ''Appliance.LicenceAgreed'' ''appliance_licence_agreed'' s;
               s = setBool ''Appliance.Manageazureroutes'' ''appliance_manageazureroutes'' s;
               s = setBool ''Appliance.Managedpa'' ''appliance_managedpa'' s;
               s = setBool ''Appliance.Manageec2Conf'' ''appliance_manageec2conf'' s;
               s = setBool ''Appliance.Manageiptrans'' ''appliance_manageiptrans'' s;
               s = setBool ''Appliance.Managereservedports'' ''appliance_managereservedports'' s;
               s = setBool ''Appliance.Managereturnpath'' ''appliance_managereturnpath'' s;
               s = setBool ''Appliance.Manageservices'' ''appliance_manageservices'' s;
               s = setBool ''Appliance.Managevpcconf'' ''appliance_managevpcconf'' s;
               s = stringListBlock ''Appliance.NameServers'' ''appliance_name_servers'' [] s;
               s = stringListBlock ''Appliance.Ntpservers'' ''appliance_ntpservers''
                     [''0.zeus.pool.ntp.org'', ''1.zeus.pool.ntp.org'',
                      ''2.zeus.pool.ntp.org'', ''3.zeus.pool.ntp.org''] s;
               s = tableBlock ext ''TrafficManagerRoutesTable'' row_TrafficManagerRoutes
                     ''Appliance.Routes'' ''appliance_routes_json'' ''appliance_routes'' s;
               s = stringListBlock ''Appliance.SearchDomains'' ''appliance_search_domains'' [] s;
               s = setBool ''Appliance.SshEnabled'' ''appliance_ssh_enabled'' s;
               s = setBool ''Appliance.SshPasswordAllowed'' ''appliance_ssh_password_allowed'' s;
               s = setInt ''Appliance.SshPort'' ''appliance_ssh_port'' s;
               s = setString ''Appliance.Timezone'' ''appliance_timezone'' s;
               s = stringListBlock ''Appliance.Vlans'' ''appliance_vlans'' [] s;
               s = tableBlock ext ''TrafficManagerApplianceCardTable'' row_TrafficManagerApplianceCard
                     ''Basic.ApplianceCard'' ''appliance_card_json'' ''appliance_card'' s;
               s = tableBlock ext ''TrafficManagerApplianceSysctlTable'' row_TrafficManagerApplianceSysctl
                     ''Basic.ApplianceSysctl'' ''appliance_sysctl_json'' ''appliance_sysctl'' s;
               s = tableBlock ext ''TrafficManagerTrafficipTable'' row_TrafficManagerTrafficip
                     ''Basic.Trafficip'' ''trafficip_json'' ''trafficip'' s;
               s = setBool ''ClusterComms.AllowUpdate'' ''cluster_comms_allow_update'' s;
               s = setString ''ClusterComms.BindIp'' ''cluster_comms_bind_ip'' s;
               s = setString ''ClusterComms.ExternalIp'' ''cluster_comms_external_ip'' s;
               s = setInt ''ClusterComms.Port'' ''cluster_comms_port'' s;
               s = stringListBlock ''Ec2.TrafficipsPublicEnis'' ''ec2_trafficips_public_enis'' [] s;
               s = setString ''FaultTolerance.BgpRouterId'' ''fault_tolerance_bgp_router_id'' s;
               s = stringListBlock ''FaultTolerance.LssDedicatedIps'' ''fault_tolerance_lss_dedicated_ips''
                     [] s;
               s = setString ''FaultTolerance.Ospfv2Ip'' ''fault_tolerance_ospfv2_ip'' s;
               s = stringListBlock ''FaultTolerance.Ospfv2NeighborAddrs'' ''fault_tolerance_ospfv2_neighbor_addrs''
                     [''%gateway%''] s;
               s = setBool ''Iptables.ConfigEnabled'' ''iptables_config_enabled'' s;
               s = setInt ''Iptrans.Fwmark'' ''iptrans_fwmark'' s;
               s = setBool ''Iptrans.IptablesEnabled'' ''iptrans_iptables_enabled'' s;
               s = setInt ''Iptrans.RoutingTable'' ''iptrans_routing_table'' s;
               s = setInt ''Java.Port'' ''java_port'' s;
               s = setString ''RemoteLicensing.EmailAddress'' ''remote_licensing_email_address'' s;
               s = setString ''RemoteLicensing.Message'' ''remote_licensing_message'' s;
               s = stringListBlock ''RestApi.BindIps'' ''rest_api_bind_ips'' [''*''] s;
               s = setInt ''RestApi.Port'' ''rest_api_port'' s;
               s = stringListBlock ''Snmp.Allow'' ''snmp_allow'' [''all''] s;
               s = setString ''Snmp.AuthPassword'' ''snmp_auth_password'' s;
               s = setString ''Snmp.BindIp'' ''snmp_bind_ip'' s;
               s = setString ''Snmp.Community'' ''snmp_community'' s;
               s = setBool ''Snmp.Enabled'' ''snmp_enabled'' s;
               s = setString ''Snmp.HashAlgorithm'' ''snmp_hash_algorithm'' s;
               s = setString ''Snmp.Port'' ''snmp_port'' s;
               s = setString ''Snmp.PrivPassword'' ''snmp_priv_password'' s;
               s = setString ''Snmp.SecurityLevel'' ''snmp_security_level'' s;
               s = setString ''Snmp.Username'' ''snmp_username'' s
            in case s of (object, d) \<Rightarrow>
                 (let applied = Apply tm object;
                      d = SetId d objectName
                  in (None, d, Some object))))"

definition resourceTrafficManagerDelete :: "ResourceData \<Rightarrow> VirtualTrafficManager \<Rightarrow> Result" where
  "resourceTrafficManagerDelete d tm = (None, SetId d [])"

section \<open>Vocabulary of the verification\<close>

text \<open>The three parts of what Create and Update return.\<close>

definition resultError :: "ApplyResult \<Rightarrow> string option" where
  "resultError r = fst r"

definition resultData :: "ApplyResult \<Rightarrow> ResourceData" where
  "resultData r = fst (snd r)"

definition resultSent :: "ApplyResult \<Rightarrow> Object option" where
  "resultSent r = snd (snd r)"

text \<open>
  The table and the string list that the object sent upstream holds at a path
  (\<open>None\<close> when no object was sent or the pointer at the path is nil).
\<close>

definition sentTable :: "ApplyResult \<Rightarrow> string \<Rightarrow> VtmRow list option" where
  "sentTable r path = (case resultSent r of Some object \<Rightarrow> tbls object path | None \<Rightarrow> None)"

definition sentList :: "ApplyResult \<Rightarrow> string \<Rightarrow> string list option" where
  "sentList r path = (case resultSent r of Some object \<Rightarrow> lsts object path | None \<Rightarrow> None)"

text \<open>
  The table attributes of the two resources that have any, each with the Go type of its
  table, its loop body, the path of its field, the name of its JSON shadow and its own
  name, as the table blocks of the handlers use them.
\<close>

definition glbServiceTables :: "(string \<times> (Row \<Rightarrow> VtmRow) \<times> string \<times> string \<times> string) list" where
  "glbServiceTables =
     [(''GlbServiceDnssecKeysTable'', row_GlbServiceDnssecKeys,
         ''Basic.DnssecKeys'', ''dnssec_keys_json'', ''dnssec_keys''),
      (''GlbServiceLocationSettingsTable'', row_GlbServiceLocationSettings,
         ''Basic.LocationSettings'', ''location_settings_json'', ''location_settings'')]"

definition trafficManagerTables :: "(string \<times> (Row \<Rightarrow> VtmRow) \<times> string \<times> string \<times> string) list" where
  "trafficManagerTables =
     [(''TrafficManagerHostsTable'', row_TrafficManagerHosts,
         ''Appliance.Hosts'', ''appliance_hosts_json'', ''appliance_hosts''),
      (''TrafficManagerIfTable'', row_TrafficManagerIf,
         ''Appliance.If'', ''appliance_if_json'', ''appliance_if''),
      (''TrafficManagerIpTable'', row_TrafficManagerIp,
         ''Appliance.Ip'', ''appliance_ip_json'', ''appliance_ip''),
      (''TrafficManagerRoutesTable'', row_TrafficManagerRoutes,
         ''Appliance.Routes'', ''appliance_routes_json'', ''appliance_routes''),
      (''TrafficManagerApplianceCardTable'', row_TrafficManagerApplianceCard,
         ''Basic.ApplianceCard'', ''appliance_card_json'', ''appliance_card''),
      (''TrafficManagerApplianceSysctlTable'', row_TrafficManagerApplianceSysctl,
         ''Basic.ApplianceSysctl'', ''appliance_sysctl_json'', ''appliance_sysctl''),
      (''TrafficManagerTrafficipTable'', row_TrafficManagerTrafficip,
         ''Basic.Trafficip'', ''trafficip_json'', ''trafficip'')]"

text \<open>
  The string-list attributes of the three resources, each with the path of its field, its
  name and the literal of the else branch of its block.
\<close>

definition glbServiceStringLists :: "(string \<times> string \<times> string list) list" where
  "glbServiceStringLists =
     [(''Basic.ChainedLocationOrder'', ''chained_location_order'', []),
      (''Basic.Domains'', ''domains'', []),
      (''Basic.LastResortResponse'', ''last_resort_response'', []),
      (''Basic.LocationDraining'', ''location_draining'', []),
      (''Basic.Rules'', ''rules'', [])]"

definition securityStringLists :: "(string \<times> string \<times> string list) list" where
  "securityStringLists =
     [(''Basic.Access'', ''access'', []),
      (''SshIntrusion.Blacklist'', ''ssh_intrusion_blacklist'', []),
      (''SshIntrusion.Whitelist'', ''ssh_intrusion_whitelist'', [])]"

definition trafficManagerStringLists :: "(string \<times> string \<times> string list) list" where
  "trafficManagerStringLists =
     [(''Appliance.NameServers'', ''appliance_name_servers'', []),
      (''Appliance.Ntpservers'', ''appliance_ntpservers'',
          [''0.zeus.pool.ntp.org'', ''1.zeus.pool.ntp.org'',
           ''2.zeus.pool.ntp.org'', ''3.zeus.pool.ntp.org'']),
      (''Appliance.SearchDomains'', ''appliance_search_domains'', []),
      (''Appliance.Vlans'', ''appliance_vlans'', []),
      (''Ec2.TrafficipsPublicEnis'', ''ec2_trafficips_public_enis'', []),
      (''FaultTolerance.LssDedicatedIps'', ''fault_tolerance_lss_dedicated_ips'', []),
      (''FaultTolerance.Ospfv2NeighborAddrs'', ''fault_tolerance_ospfv2_neighbor_addrs'',
          [''%gateway%'']),
      (''RestApi.BindIps'', ''rest_api_bind_ips'', [''*'']),
      (''Snmp.Allow'', ''snmp_allow'', [''all''])]"

text \<open>
  What a table block does, as a function of what \<^verbatim>\<open>d.GetOk\<close> reports for \<open>L_json\<close> and
  for \<open>L\<close>: the table it leaves in the object, and the rows it leaves in the local state
  for \<open>L\<close> (\<open>held\<close> is what the state held for \<open>L\<close> before). Likewise for a string-list
  block, with the configured list and the literal of the else branch.
\<close>

definition resolvedTable ::
  "Externals \<Rightarrow> string \<Rightarrow> (Row \<Rightarrow> VtmRow) \<Rightarrow> string option \<Rightarrow> Row list option \<Rightarrow> VtmRow list" where
  "resolvedTable ext tableType fromRow shadow structured =
     (case shadow of
        Some json \<Rightarrow> snd (json_Unmarshal ext tableType json [])
      | None \<Rightarrow> (case structured of Some rows \<Rightarrow> map fromRow rows | None \<Rightarrow> []))"

definition writtenTable ::
  "string option \<Rightarrow> Row list option \<Rightarrow> Row list option \<Rightarrow> Row list option" where
  "writtenTable shadow structured held =
     (case shadow of
        Some json \<Rightarrow> held
      | None \<Rightarrow> (case structured of Some rows \<Rightarrow> Some rows | None \<Rightarrow> Some []))"

definition resolvedList :: "string list option \<Rightarrow> string list \<Rightarrow> string list \<Rightarrow> string list" where
  "resolvedList supplied configured dflt =
     (case supplied of Some v \<Rightarrow> expandStringList configured | None \<Rightarrow> dflt)"

definition writtenList ::
  "string list option \<Rightarrow> string list option \<Rightarrow> string list \<Rightarrow> string list option" where
  "writtenList supplied held dflt = (case supplied of Some v \<Rightarrow> held | None \<Rightarrow> Some dflt)"

text \<open>
  The remote shape of a row of each table: the fields of the client's row struct, each
  with its type and with the attribute of the nested schema whose value it carries. The
  attributes and their types are those that the nested schema of the table declares
  (for \<open>dnssec_keys\<close>: \<open>domain\<close> of \<^verbatim>\<open>TypeString\<close> and \<open>ssl_key\<close>, a \<^verbatim>\<open>TypeList\<close> of
  strings); the field of an attribute is the one that the Read handler copies into it
  (\<^verbatim>\<open>itemTerraform["domain"] = string(*item.Domain)\<close>).
\<close>

datatype Kind = KString | KBool | KInt | KStringList

definition remoteShape :: "string \<Rightarrow> (string \<times> Kind \<times> string) list" where
  "remoteShape tableType =
     (if tableType = ''GlbServiceDnssecKeysTable'' then
        [(''Domain'', KString, ''domain''), (''SslKey'', KStringList, ''ssl_key'')]
      else if tableType = ''GlbServiceLocationSettingsTable'' then
        [(''Ips'', KStringList, ''ips''), (''Location'', KString, ''location''),
         (''Monitors'', KStringList, ''monitors''), (''Weight'', KInt, ''weight'')]
      else if tableType = ''TrafficManagerHostsTable'' then
        [(''IpAddress'', KString, ''ip_address''), (''Name'', KString, ''name'')]
      else if tableType = ''TrafficManagerIfTable'' then
        [(''Autoneg'', KBool, ''autoneg''), (''Bmode'', KString, ''bmode''),
         (''Bond'', KString, ''bond''), (''Duplex'', KBool, ''duplex''),
         (''Mode'', KString, ''mode''), (''Mtu'', KInt, ''mtu''),
         (''Name'', KString, ''name''), (''Speed'', KString, ''speed'')]
      else if tableType = ''TrafficManagerIpTable'' then
        [(''Addr'', KString, ''addr''), (''Isexternal'', KBool, ''isexternal''),
         (''Mask'', KString, ''mask''), (''Name'', KString, ''name'')]
      else if tableType = ''TrafficManagerRoutesTable'' then
        [(''Gw'', KString, ''gw''), (''If'', KString, ''if''),
         (''Mask'', KString, ''mask''), (''Name'', KString, ''name'')]
      else if tableType = ''TrafficManagerApplianceCardTable'' then
        [(''Interfaces'', KStringList, ''interfaces''), (''Label'', KString, ''label''),
         (''Name'', KString, ''name'')]
      else if tableType = ''TrafficManagerApplianceSysctlTable'' then
        [(''Description'', KString, ''description''), (''Sysctl'', KString, ''sysctl''),
         (''Value'', KString, ''value'')]
      else if tableType = ''TrafficManagerTrafficipTable'' then
        [(''Name'', KString, ''name''), (''Networks'', KStringList, ''networks'')]
      else [])"

text \<open>
  The row struct of a shape for one entry of \<open>L\<close>: every field of the shape points to the
  value that the entry has for the field's attribute, and every other field is nil.
\<close>

fun setField :: "Row \<Rightarrow> VtmRow \<Rightarrow> string \<times> Kind \<times> string \<Rightarrow> VtmRow" where
  "setField entry remote (field, KString, attribute) =
     remote\<lparr>strs := (strs remote)(field \<mapsto> getString entry attribute)\<rparr>"
| "setField entry remote (field, KBool, attribute) =
     remote\<lparr>bls := (bls remote)(field \<mapsto> getBool entry attribute)\<rparr>"
| "setField entry remote (field, KInt, attribute) =
     remote\<lparr>nums := (nums remote)(field \<mapsto> getInt entry attribute)\<rparr>"
| "setField entry remote (field, KStringList, attribute) =
     remote\<lparr>lsts := (lsts remote)(field \<mapsto> getList entry attribute)\<rparr>"

definition toRemote :: "(string \<times> Kind \<times> string) list \<Rightarrow> Row \<Rightarrow> VtmRow" where
  "toRemote shape entry =
     foldl (setField entry) nilFields shape"

text \<open>
  The string-list attributes that the schema of the traffic manager declares
  \<^verbatim>\<open>Optional\<close> and \<^verbatim>\<open>Computed\<close>; no other attribute of the three resources is
  \<^verbatim>\<open>Computed\<close>.
\<close>

definition computedStringLists :: "string list" where
  "computedStringLists =
     [''appliance_ntpservers'', ''fault_tolerance_ospfv2_neighbor_addrs'',
      ''rest_api_bind_ips'', ''snmp_allow'']"

text \<open>
  The string lists that Update finds in \<open>d\<close>, given the lists of the prior state and the
  lists that the configuration sets. This is the rule of the schema framework, which is
  no part of this repository: an attribute that the configuration sets has the configured
  value; an attribute that the configuration leaves out is removed, unless it is
  \<^verbatim>\<open>Computed\<close>, in which case it keeps the value of the state.
\<close>

definition listsSeen ::
  "(string \<rightharpoonup> string list) \<Rightarrow> (string \<rightharpoonup> string list) \<Rightarrow> (string \<rightharpoonup> string list)" where
  "listsSeen prior configured =
     (\<lambda>key. case configured key of
              Some v \<Rightarrow> Some v
            | None \<Rightarrow> (if key \<in> set computedStringLists then prior key else None))"

text \<open>
  One narrowing pass of the list data source: a filter that is supplied is applied, one
  that is not leaves the list as it is. The regex pass can fail.
\<close>

definition narrow :: "(string list \<Rightarrow> string \<Rightarrow> string list) \<Rightarrow> string option \<Rightarrow> string list \<Rightarrow> string list" where
  "narrow pass supplied xs = (case supplied of Some arg \<Rightarrow> pass xs arg | None \<Rightarrow> xs)"

definition narrowRegex :: "Externals \<Rightarrow> string option \<Rightarrow> string list \<Rightarrow> string + string list" where
  "narrowRegex ext supplied xs =
     (case supplied of Some pattern \<Rightarrow> getStringListMatchingRegex ext xs pattern | None \<Rightarrow> Inr xs)"

text \<open>
  Spec 4.1, side effect: both \<open>L\<close> and \<open>L_json\<close> are in the local state and mutually
  consistent, that is, the text held by \<open>L_json\<close> decodes without error to the table that
  the rows held by \<open>L\<close> convert to.
\<close>

definition shadowConsistent ::
  "Externals \<Rightarrow> string \<Rightarrow> (Row \<Rightarrow> VtmRow) \<Rightarrow> string \<Rightarrow> string \<Rightarrow> ResourceData \<Rightarrow> bool" where
  "shadowConsistent ext tableType fromRow jsonKey key d =
     (case strs d jsonKey of
        None \<Rightarrow> False
      | Some json \<Rightarrow>
          (case tables d key of
             None \<Rightarrow> False
           | Some rows \<Rightarrow> json_Unmarshal ext tableType json [] = (None, appendRows fromRow [] rows)))"

section \<open>Example inputs\<close>

text \<open>
  A stand-in for the externals: only the pattern \<open>(\<close> fails to compile and every other
  pattern matches the strings that contain it; only the text \<open>[]\<close> decodes, to the
  empty table.
\<close>

definition exampleExternals :: Externals where
  "exampleExternals =
     \<lparr>regexp_Compile = (\<lambda>pattern.
          if pattern = ''('' then Inl ''error parsing regexp: missing closing )''
          else Inr (\<lambda>s. Contains s pattern)),
      json_Unmarshal = (\<lambda>tableType json tbl.
          if json = ''[]'' then (None, []) else (Some ''invalid character'', tbl)),
      json_Marshal = (\<lambda>rows. if rows = [] then ''[]'' else ''[...]''),
      fmt_v = ErrorText,
      SetBytes = SetString\<rparr>"

definition notFound :: VtmErrorResponse where
  "notFound = \<lparr>ErrorId = ''resource.not_found'', ErrorText = ''Resource not found''\<rparr>"

definition refused :: VtmErrorResponse where
  "refused = \<lparr>ErrorId = ''http.refused'', ErrorText = ''connection refused''\<rparr>"

definition nilObject :: Object where
  "nilObject = \<lparr>strs = Map.empty, bls = Map.empty, nums = Map.empty, lsts = Map.empty,
                  tbls = Map.empty\<rparr>"

text \<open>
  An appliance that lists three traffic managers, hands out an object without any field
  for every name, and rejects every \<^verbatim>\<open>Apply\<close>; and one on which every fetch fails,
  with the given error response.
\<close>

definition exampleAppliance :: VirtualTrafficManager where
  "exampleAppliance =
     \<lparr>ListTrafficManagers = Inr [''alpha'', ''az'', ''beta''],
      GetEventStatistics = (\<lambda>name. Inr nilObject),
      GetExtrasUserCounters64Statistics = Inr nilObject,
      GetListenIpStatistics = (\<lambda>name. Inr nilObject),
      GetGlbService = (\<lambda>name. Inr nilObject),
      NewGlbService = (\<lambda>name. nilObject),
      DeleteGlbService = (\<lambda>name. None),
      GetSecurity = Inr nilObject,
      GetTrafficManager = (\<lambda>name. Inr nilObject),
      Apply = (\<lambda>object. Some refused)\<rparr>"

definition failingAppliance :: "VtmErrorResponse \<Rightarrow> VirtualTrafficManager" where
  "failingAppliance err =
     \<lparr>ListTrafficManagers = Inl err,
      GetEventStatistics = (\<lambda>name. Inl err),
      GetExtrasUserCounters64Statistics = Inl err,
      GetListenIpStatistics = (\<lambda>name. Inl err),
      GetGlbService = (\<lambda>name. Inl err),
      NewGlbService = (\<lambda>name. nilObject),
      DeleteGlbService = (\<lambda>name. Some err),
      GetSecurity = Inl err,
      GetTrafficManager = (\<lambda>name. Inl err),
      Apply = (\<lambda>object. Some err)\<rparr>"

text \<open>
  A configuration named \<open>web\<close> whose id is set, with the given string attributes and
  table attributes and nothing else.
\<close>

definition exampleData :: "(string \<rightharpoonup> string) \<Rightarrow> (string \<rightharpoonup> Row list) \<Rightarrow> ResourceData" where
  "exampleData strings rows =
     \<lparr>strs = strings(''name'' \<mapsto> ''web''), bls = Map.empty, nums = Map.empty, lsts = Map.empty,
      tables = rows, Id = ''web''\<rparr>"

definition exampleRow :: Row where
  "exampleRow = putList ''ssl_key'' [''key1''] (putString ''domain'' ''example.com'' nilFields)"

text \<open>
  The attribute set of the singleton statistics data source after an earlier read, and a
  GLB service configuration whose JSON shadow of \<open>dnssec_keys\<close> holds the empty table
  while \<open>dnssec_keys\<close> itself holds one row.
\<close>

definition exampleCounters :: ResourceData where
  "exampleCounters =
     \<lparr>strs = Map.empty, bls = Map.empty, nums = [''counter'' \<mapsto> 7], lsts = Map.empty,
      tables = Map.empty, Id = ''user_counters_64''\<rparr>"

definition conflictingData :: ResourceData where
  "conflictingData =
     exampleData [''dnssec_keys_json'' \<mapsto> ''[]''] [''dnssec_keys'' \<mapsto> [exampleRow]]"

text \<open>
  A state in which \<open>snmp_allow\<close> and \<open>access\<close> hold one address each, a configuration
  that sets no string-list attribute, and the attribute set that Update finds for the two.
\<close>

definition priorLists :: "string \<rightharpoonup> string list" where
  "priorLists = [''snmp_allow'' \<mapsto> [''10.0.0.0/8''], ''access'' \<mapsto> [''10.0.0.1'']]"

definition omittedLists :: "string \<rightharpoonup> string list" where
  "omittedLists = Map.empty"

definition carriedData :: ResourceData where
  "carriedData = (exampleData Map.empty Map.empty)\<lparr>lsts := listsSeen priorLists omittedLists\<rparr>"

section \<open>Verification\<close>

subsection \<open>What one step changes\<close>

text \<open>
  The handlers run up to 75 steps one after the other. The steps are kept folded: the
  lemmas of this section say what each kind of step does to each part of the pair of
  object and attribute set, and the proofs about a handler rewrite with them alone.
\<close>

declare setString.simps [simp del] setBool.simps [simp del] setInt.simps [simp del]
  setStringList.simps [simp del] stringListBlock.simps [simp del] tableBlock.simps [simp del]

lemma appendRows_map: "appendRows f tbl rows = tbl @ map f rows"
  by (induction rows arbitrary: tbl) simp_all

lemma SetId_frames:
  "strs (SetId d v) = strs d"
  "lsts (SetId d v) = lsts d"
  "tables (SetId d v) = tables d"
  "Id (SetId d v) = v"
  by (simp_all add: SetId_def)

lemma setter_data:
  "snd (setString p k s) = snd s"
  "snd (setBool p k s) = snd s"
  "snd (setInt p k s) = snd s"
  "snd (setStringList p k s) = snd s"
  by (cases s; simp add: setString.simps setBool.simps setInt.simps setStringList.simps)+

lemma setter_object:
  "tbls (fst (setString p k s)) = tbls (fst s)"
  "lsts (fst (setString p k s)) = lsts (fst s)"
  "tbls (fst (setBool p k s)) = tbls (fst s)"
  "lsts (fst (setBool p k s)) = lsts (fst s)"
  "tbls (fst (setInt p k s)) = tbls (fst s)"
  "lsts (fst (setInt p k s)) = lsts (fst s)"
  by (cases s;
      simp add: setString.simps setBool.simps setInt.simps putString_def putBool_def putInt_def)+

lemma stringListBlock_data:
  "strs (snd (stringListBlock p k dflt s)) = strs (snd s)"
  "tables (snd (stringListBlock p k dflt s)) = tables (snd s)"
  "Id (snd (stringListBlock p k dflt s)) = Id (snd s)"
  by (cases s;
      simp add: stringListBlock.simps setStringList.simps SetList_def Let_def split: option.split)+

lemma stringListBlock_lsts_data:
  "lsts (snd (stringListBlock p k dflt s)) k' =
     (if k' = k then writtenList (GetOkList (snd s) k) (lsts (snd s) k) dflt else lsts (snd s) k')"
  by (cases s)
    (simp add: stringListBlock.simps setStringList.simps SetList_def Let_def getList_def
      putList_def writtenList_def split: option.split)

lemma stringListBlock_tbls_object:
  "tbls (fst (stringListBlock p k dflt s)) = tbls (fst s)"
  by (cases s)
    (simp add: stringListBlock.simps setStringList.simps putList_def Let_def split: option.split)

lemma stringListBlock_lsts_object:
  "lsts (fst (stringListBlock p k dflt s)) p' =
     (if p' = p then Some (resolvedList (GetOkList (snd s) k) (getList (snd s) k) dflt)
      else lsts (fst s) p')"
  by (cases s)
    (simp add: stringListBlock.simps setStringList.simps putList_def Let_def resolvedList_def
      split: option.split)

lemma tableBlock_data:
  "strs (snd (tableBlock ext ty f p jk k s)) = strs (snd s)"
  "lsts (snd (tableBlock ext ty f p jk k s)) = lsts (snd s)"
  "Id (snd (tableBlock ext ty f p jk k s)) = Id (snd s)"
  by (cases s; simp add: tableBlock.simps SetTable_def Let_def split: option.split prod.split)+

lemma tableBlock_tables_data:
  "tables (snd (tableBlock ext ty f p jk k s)) k' =
     (if k' = k
      then writtenTable (GetOkString (snd s) jk) (GetOkTable (snd s) k) (tables (snd s) k)
      else tables (snd s) k')"
  by (cases s)
    (simp add: tableBlock.simps SetTable_def Let_def writtenTable_def
      split: option.split prod.split)

lemma tableBlock_lsts_object:
  "lsts (fst (tableBlock ext ty f p jk k s)) = lsts (fst s)"
  by (cases s) (simp add: tableBlock.simps putTable_def Let_def split: option.split prod.split)

lemma tableBlock_tbls_object:
  "tbls (fst (tableBlock ext ty f p jk k s)) p' =
     (if p' = p
      then Some (resolvedTable ext ty f (GetOkString (snd s) jk) (GetOkTable (snd s) k))
      else tbls (fst s) p')"
  by (cases s)
    (simp add: tableBlock.simps putTable_def getTable_def appendRows_map Let_def
      resolvedTable_def split: option.split prod.split)

text \<open>
  No step writes a string attribute, so \<^verbatim>\<open>d.GetOk\<close> of a JSON shadow reports the same
  before and after every step. A table block changes what the state holds for \<open>L\<close> only
  between unset and the empty table, or not at all, so \<^verbatim>\<open>d.GetOk\<close> of a table attribute
  reports the same as well.
\<close>

lemma GetOkString_steps:
  "GetOkString (snd (stringListBlock p k dflt s)) = GetOkString (snd s)"
  "GetOkString (snd (tableBlock ext ty f p jk k s)) = GetOkString (snd s)"
  by (rule ext, simp add: GetOkString_def stringListBlock_data tableBlock_data)+

lemma GetOkTable_steps:
  "GetOkTable (snd (stringListBlock p k dflt s)) = GetOkTable (snd s)"
  "GetOkTable (snd (tableBlock ext ty f p jk k s)) = GetOkTable (snd s)"
proof -
  show "GetOkTable (snd (stringListBlock p k dflt s)) = GetOkTable (snd s)"
    by (rule ext) (simp add: GetOkTable_def stringListBlock_data)
  show "GetOkTable (snd (tableBlock ext ty f p jk k s)) = GetOkTable (snd s)"
  proof (rule ext)
    fix k'
    show "GetOkTable (snd (tableBlock ext ty f p jk k s)) k' = GetOkTable (snd s) k'"
      by (simp add: GetOkTable_def tableBlock_tables_data writtenTable_def
          split: option.split if_splits)
  qed
qed

lemma GetOkList_steps:
  "GetOkList (snd (tableBlock ext ty f p jk k s)) = GetOkList (snd s)"
  "k' \<noteq> k \<Longrightarrow> GetOkList (snd (stringListBlock p k dflt s)) k' = GetOkList (snd s) k'"
  by (rule ext, simp add: GetOkList_def tableBlock_data,
      simp add: GetOkList_def stringListBlock_lsts_data)

lemma getList_steps:
  "getList (snd (tableBlock ext ty f p jk k s)) = getList (snd s)"
  "k' \<noteq> k \<Longrightarrow> getList (snd (stringListBlock p k dflt s)) k' = getList (snd s) k'"
  by (rule ext, simp add: getList_def tableBlock_data,
      simp add: getList_def stringListBlock_lsts_data)

lemmas step_frames =
  setter_data setter_object stringListBlock_data stringListBlock_lsts_data
  stringListBlock_tbls_object stringListBlock_lsts_object tableBlock_data
  tableBlock_tables_data tableBlock_lsts_object tableBlock_tbls_object
  GetOkString_steps GetOkTable_steps GetOkList_steps getList_steps SetId_frames

lemmas literals =
  list.inject list.distinct char.inject simp_thms if_True if_False fst_conv snd_conv
  sum.case option.case prod.case option.distinct option.inject

lemmas in_list = list.set insert_iff empty_iff prod.inject simp_thms

subsection \<open>What a handler does as a whole\<close>

lemma glbCreate_result:
  "resultError (resourceGlbServiceCreate ext d tm) = None \<and> Id (resultData (resourceGlbServiceCreate ext d tm)) = getString d ''name''
   \<and> strs (resultData (resourceGlbServiceCreate ext d tm)) = strs d \<and> resultSent (resourceGlbServiceCreate ext d tm) \<noteq> None"
  unfolding resourceGlbServiceCreate_def Let_def resultError_def resultData_def resultSent_def
  by (simp only: step_frames literals split_def cong: if_weak_cong)

lemma glbCreate_sentTable:
  "(ty, f, p, jk, k) \<in> set glbServiceTables \<Longrightarrow>
   sentTable (resourceGlbServiceCreate ext d tm) p
     = Some (resolvedTable ext ty f (GetOkString d jk) (GetOkTable d k))"
  unfolding glbServiceTables_def resourceGlbServiceCreate_def Let_def sentTable_def resultSent_def
  by (simp only: in_list, elim disjE conjE; simp only: step_frames literals split_def cong: if_weak_cong)

lemma glbCreate_tables:
  "(ty, f, p, jk, k) \<in> set glbServiceTables \<Longrightarrow>
   tables (resultData (resourceGlbServiceCreate ext d tm)) k
     = writtenTable (GetOkString d jk) (GetOkTable d k) (tables d k)"
  unfolding glbServiceTables_def resourceGlbServiceCreate_def Let_def resultData_def
  by (simp only: in_list, elim disjE conjE; simp only: step_frames literals split_def cong: if_weak_cong)

lemma glbCreate_sentList:
  "(p, k, dflt) \<in> set glbServiceStringLists \<Longrightarrow>
   sentList (resourceGlbServiceCreate ext d tm) p = Some (resolvedList (GetOkList d k) (getList d k) dflt)"
  unfolding glbServiceStringLists_def resourceGlbServiceCreate_def Let_def sentList_def resultSent_def
  by (simp only: in_list, elim disjE conjE; simp only: step_frames literals split_def cong: if_weak_cong)

lemma glbCreate_lsts:
  "(p, k, dflt) \<in> set glbServiceStringLists \<Longrightarrow>
   lsts (resultData (resourceGlbServiceCreate ext d tm)) k = writtenList (GetOkList d k) (lsts d k) dflt"
  unfolding glbServiceStringLists_def resourceGlbServiceCreate_def Let_def resultData_def
  by (simp only: in_list, elim disjE conjE; simp only: step_frames literals split_def cong: if_weak_cong)

lemma glbUpdate_result:
  "GetGlbService tm (getString d ''name'') = Inr object \<Longrightarrow>
   resultError (resourceGlbServiceUpdate ext d tm) = None \<and> Id (resultData (resourceGlbServiceUpdate ext d tm)) = getString d ''name''
   \<and> strs (resultData (resourceGlbServiceUpdate ext d tm)) = strs d \<and> resultSent (resourceGlbServiceUpdate ext d tm) \<noteq> None"
  unfolding resourceGlbServiceUpdate_def Let_def resultError_def resultData_def resultSent_def
  by (simp only: step_frames literals split_def cong: if_weak_cong)

lemma glbUpdate_sentTable:
  "(ty, f, p, jk, k) \<in> set glbServiceTables \<Longrightarrow>
   GetGlbService tm (getString d ''name'') = Inr object \<Longrightarrow>
   sentTable (resourceGlbServiceUpdate ext d tm) p
     = Some (resolvedTable ext ty f (GetOkString d jk) (GetOkTable d k))"
  unfolding glbServiceTables_def resourceGlbServiceUpdate_def Let_def sentTable_def resultSent_def
  by (simp only: in_list, elim disjE conjE; simp only: step_frames literals split_def cong: if_weak_cong)

lemma glbUpdate_tables:
  "(ty, f, p, jk, k) \<in> set glbServiceTables \<Longrightarrow>
   GetGlbService tm (getString d ''name'') = Inr object \<Longrightarrow>
   tables (resultData (resourceGlbServiceUpdate ext d tm)) k
     = writtenTable (GetOkString d jk) (GetOkTable d k) (tables d k)"
  unfolding glbServiceTables_def resourceGlbServiceUpdate_def Let_def resultData_def
  by (simp only: in_list, elim disjE conjE; simp only: step_frames literals split_def cong: if_weak_cong)

lemma glbUpdate_sentList:
  "(p, k, dflt) \<in> set glbServiceStringLists \<Longrightarrow>
   GetGlbService tm (getString d ''name'') = Inr object \<Longrightarrow>
   sentList (resourceGlbServiceUpdate ext d tm) p = Some (resolvedList (GetOkList d k) (getList d k) dflt)"
  unfolding glbServiceStringLists_def resourceGlbServiceUpdate_def Let_def sentList_def resultSent_def
  by (simp only: in_list, elim disjE conjE; simp only: step_frames literals split_def cong: if_weak_cong)

lemma glbUpdate_lsts:
  "(p, k, dflt) \<in> set glbServiceStringLists \<Longrightarrow>
   GetGlbService tm (getString d ''name'') = Inr object \<Longrightarrow>
   lsts (resultData (resourceGlbServiceUpdate ext d tm)) k = writtenList (GetOkList d k) (lsts d k) dflt"
  unfolding glbServiceStringLists_def resourceGlbServiceUpdate_def Let_def resultData_def
  by (simp only: in_list, elim disjE conjE; simp only: step_frames literals split_def cong: if_weak_cong)

lemma securityUpdate_result:
  "GetSecurity tm = Inr object \<Longrightarrow>
   resultError (resourceSecurityUpdate ext d tm) = None \<and> Id (resultData (resourceSecurityUpdate ext d tm)) = ''security''
   \<and> strs (resultData (resourceSecurityUpdate ext d tm)) = strs d \<and> resultSent (resourceSecurityUpdate ext d tm) \<noteq> None"
  unfolding resourceSecurityUpdate_def Let_def resultError_def resultData_def resultSent_def
  by (simp only: step_frames literals split_def cong: if_weak_cong)

lemma securityUpdate_sentList:
  "(p, k, dflt) \<in> set securityStringLists \<Longrightarrow>
   GetSecurity tm = Inr object \<Longrightarrow>
   sentList (resourceSecurityUpdate ext d tm) p = Some (resolvedList (GetOkList d k) (getList d k) dflt)"
  unfolding securityStringLists_def resourceSecurityUpdate_def Let_def sentList_def resultSent_def
  by (simp only: in_list, elim disjE conjE; simp only: step_frames literals split_def cong: if_weak_cong)

lemma securityUpdate_lsts:
  "(p, k, dflt) \<in> set securityStringLists \<Longrightarrow>
   GetSecurity tm = Inr object \<Longrightarrow>
   lsts (resultData (resourceSecurityUpdate ext d tm)) k = writtenList (GetOkList d k) (lsts d k) dflt"
  unfolding securityStringLists_def resourceSecurityUpdate_def Let_def resultData_def
  by (simp only: in_list, elim disjE conjE; simp only: step_frames literals split_def cong: if_weak_cong)

lemma tmUpdate_result:
  "GetTrafficManager tm (getString d ''name'') = Inr object \<Longrightarrow>
   resultError (resourceTrafficManagerUpdate ext d tm) = None \<and> Id (resultData (resourceTrafficManagerUpdate ext d tm)) = getString d ''name''
   \<and> strs (resultData (resourceTrafficManagerUpdate ext d tm)) = strs d \<and> resultSent (resourceTrafficManagerUpdate ext d tm) \<noteq> None"
  unfolding resourceTrafficManagerUpdate_def Let_def resultError_def resultData_def resultSent_def
  by (simp only: step_frames literals split_def cong: if_weak_cong)

lemma tmUpdate_sentTable:
  "(ty, f, p, jk, k) \<in> set trafficManagerTables \<Longrightarrow>
   GetTrafficManager tm (getString d ''name'') = Inr object \<Longrightarrow>
   sentTable (resourceTrafficManagerUpdate ext d tm) p
     = Some (resolvedTable ext ty f (GetOkString d jk) (GetOkTable d k))"
  unfolding trafficManagerTables_def resourceTrafficManagerUpdate_def Let_def sentTable_def resultSent_def
  by (simp only: in_list, elim disjE conjE; simp only: step_frames literals split_def cong: if_weak_cong)

lemma tmUpdate_tables:
  "(ty, f, p, jk, k) \<in> set trafficManagerTables \<Longrightarrow>
   GetTrafficManager tm (getString d ''name'') = Inr object \<Longrightarrow>
   tables (resultData (resourceTrafficManagerUpdate ext d tm)) k
     = writtenTable (GetOkString d jk) (GetOkTable d k) (tables d k)"
  unfolding trafficManagerTables_def resourceTrafficManagerUpdate_def Let_def resultData_def
  by (simp only: in_list, elim disjE conjE; simp only: step_frames literals split_def cong: if_weak_cong)

lemma tmUpdate_sentList:
  "(p, k, dflt) \<in> set trafficManagerStringLists \<Longrightarrow>
   GetTrafficManager tm (getString d ''name'') = Inr object \<Longrightarrow>
   sentList (resourceTrafficManagerUpdate ext d tm) p = Some (resolvedList (GetOkList d k) (getList d k) dflt)"
  unfolding trafficManagerStringLists_def resourceTrafficManagerUpdate_def Let_def sentList_def resultSent_def
  by (simp only: in_list, elim disjE conjE; simp only: step_frames literals split_def cong: if_weak_cong)

lemma tmUpdate_lsts:
  "(p, k, dflt) \<in> set trafficManagerStringLists \<Longrightarrow>
   GetTrafficManager tm (getString d ''name'') = Inr object \<Longrightarrow>
   lsts (resultData (resourceTrafficManagerUpdate ext d tm)) k = writtenList (GetOkList d k) (lsts d k) dflt"
  unfolding trafficManagerStringLists_def resourceTrafficManagerUpdate_def Let_def resultData_def
  by (simp only: in_list, elim disjE conjE; simp only: step_frames literals split_def cong: if_weak_cong)

subsection \<open>The list data source\<close>

text \<open>
  The three string tests are the library's \<open>prefix\<close>, \<open>suffix\<close> and \<open>sublist\<close> (the
  contiguous one), with the arguments in Go's order.
\<close>

lemma HasPrefix_prefix: "HasPrefix s p = prefix p s"
  by (induction s p rule: HasPrefix.induct) auto

lemma HasSuffix_suffix: "HasSuffix s x = suffix x s"
  by (simp add: HasSuffix_def HasPrefix_prefix suffix_to_prefix)

lemma Contains_sublist: "Contains s x = sublist x s"
  by (induction s) (simp_all add: HasPrefix_prefix sublist_Cons_right)

text \<open>
  Claim C5. For every list that the appliance returns and every choice of supplied
  filters, the list data source narrows the list by the supplied filters one after the
  other in the order \<open>starts_with\<close>, \<open>ends_with\<close>, \<open>contains\<close>, \<open>regex_match\<close>, and a
  filter that is not supplied is skipped. In particular, with \<open>starts_with = "a"\<close> and
  \<open>contains = "z"\<close> and no other filter, the list written to \<open>object_list\<close> is the
  \<open>contains\<close> filter applied to the output of the \<open>starts_with\<close> filter.
\<close>

theorem list_read_filters_in_order:
  assumes "ListTrafficManagers tm = Inr input"
  shows "dataSourceTrafficManagerListRead ext d tm =
           (case narrowRegex ext (GetOkString d ''regex_match'')
                   (narrow getStringListContaining (GetOkString d ''contains'')
                     (narrow getStringListEndingWith (GetOkString d ''ends_with'')
                       (narrow getStringListStartingWith (GetOkString d ''starts_with'') input))) of
              Inl regexErr \<Rightarrow> (Some regexErr, SetId d [])
            | Inr objectList \<Rightarrow>
                (None, SetId (SetList d ''object_list'' objectList) ''traffic_manager_list''))
       \<and> (GetOkString d ''starts_with'' = Some ''a'' \<longrightarrow> GetOkString d ''ends_with'' = None \<longrightarrow>
            GetOkString d ''contains'' = Some ''z'' \<longrightarrow> GetOkString d ''regex_match'' = None \<longrightarrow>
            lsts (snd (dataSourceTrafficManagerListRead ext d tm)) ''object_list''
              = Some (getStringListContaining (getStringListStartingWith input ''a'') ''z''))"
  using assms
  by (simp add: dataSourceTrafficManagerListRead_def narrow_def narrowRegex_def Let_def
      SetId_def SetList_def split: option.split sum.split)

theorem list_read_filters_in_order_witness:
  "ListTrafficManagers exampleAppliance = Inr [''alpha'', ''az'', ''beta'']
   \<and> GetOkString (exampleData [''starts_with'' \<mapsto> ''a'', ''contains'' \<mapsto> ''z''] Map.empty)
         ''starts_with'' = Some ''a''
   \<and> GetOkString (exampleData [''starts_with'' \<mapsto> ''a'', ''contains'' \<mapsto> ''z''] Map.empty)
         ''contains'' = Some ''z''
   \<and> lsts (snd (dataSourceTrafficManagerListRead exampleExternals
         (exampleData [''starts_with'' \<mapsto> ''a'', ''contains'' \<mapsto> ''z''] Map.empty)
         exampleAppliance)) ''object_list'' = Some [''az'']"
  using list_read_filters_in_order
    [where tm = exampleAppliance and input = "[''alpha'', ''az'', ''beta'']"
       and ext = exampleExternals
       and d = "exampleData [''starts_with'' \<mapsto> ''a'', ''contains'' \<mapsto> ''z''] Map.empty"]
  by (simp add: exampleAppliance_def exampleData_def GetOkString_def narrow_def narrowRegex_def
      SetId_def SetList_def getStringListContaining_def getStringListStartingWith_def)

text \<open>
  Claim C8. In the list data source, when a \<open>regex_match\<close> filter is supplied and its
  pattern does not compile, the read clears the id of the data source (it is the empty
  string afterwards) and returns the compilation error to the caller.
\<close>

theorem list_read_regex_failure:
  assumes "ListTrafficManagers tm = Inr objectList"
    and "GetOkString d ''regex_match'' = Some pattern"
    and "regexp_Compile ext pattern = Inl regexErr"
  shows "dataSourceTrafficManagerListRead ext d tm = (Some regexErr, SetId d [])
       \<and> Id (snd (dataSourceTrafficManagerListRead ext d tm)) = []"
  using assms
  by (simp add: dataSourceTrafficManagerListRead_def getStringListMatchingRegex_def
      SetId_def Let_def)

theorem list_read_regex_failure_witness:
  "ListTrafficManagers exampleAppliance = Inr [''alpha'', ''az'', ''beta'']
   \<and> GetOkString (exampleData [''regex_match'' \<mapsto> ''(''] Map.empty) ''regex_match'' = Some ''(''
   \<and> regexp_Compile exampleExternals ''('' = Inl ''error parsing regexp: missing closing )''
   \<and> fst (dataSourceTrafficManagerListRead exampleExternals
         (exampleData [''regex_match'' \<mapsto> ''(''] Map.empty) exampleAppliance)
       = Some ''error parsing regexp: missing closing )''
   \<and> Id (snd (dataSourceTrafficManagerListRead exampleExternals
         (exampleData [''regex_match'' \<mapsto> ''(''] Map.empty) exampleAppliance)) = []"
  using list_read_regex_failure
    [where tm = exampleAppliance and objectList = "[''alpha'', ''az'', ''beta'']"
       and ext = exampleExternals and pattern = "''(''"
       and regexErr = "''error parsing regexp: missing closing )''"
       and d = "exampleData [''regex_match'' \<mapsto> ''(''] Map.empty"]
  by (simp add: exampleAppliance_def exampleData_def exampleExternals_def GetOkString_def
      SetId_def)

subsection \<open>Reading an object that the appliance cannot deliver\<close>

text \<open>
  Claim C9. For every named object (an event's statistics, a listening IP's statistics, a
  GLB service, a traffic manager), reading it when the appliance reports
  \<open>resource.not_found\<close> sets the local id to the empty string and returns no error.
\<close>

theorem read_not_found_clears_id:
  assumes "ErrorId err = ''resource.not_found''"
  shows "(GetEventStatistics tm (getString d ''name'') = Inl err \<longrightarrow>
            dataSourceEventStatisticsRead d tm = Some (None, SetId d []))
       \<and> (GetListenIpStatistics tm (getString d ''name'') = Inl err \<longrightarrow>
            dataSourceListenIpStatisticsRead d tm = Some (None, SetId d []))
       \<and> (GetGlbService tm (getString d ''name'') = Inl err \<longrightarrow>
            resourceGlbServiceRead ext d tm = Some (None, SetId d []))
       \<and> (GetTrafficManager tm (getString d ''name'') = Inl err \<longrightarrow>
            resourceTrafficManagerRead ext d tm = Some (None, SetId d []))
       \<and> Id (SetId d []) = []"
  using assms
  unfolding dataSourceEventStatisticsRead_def dataSourceListenIpStatisticsRead_def
    resourceGlbServiceRead_def resourceTrafficManagerRead_def Let_def
  by (intro conjI impI; simp only: SetId_frames literals)

theorem read_not_found_clears_id_witness:
  "ErrorId notFound = ''resource.not_found''
   \<and> GetEventStatistics (failingAppliance notFound)
        (getString (exampleData Map.empty Map.empty) ''name'') = Inl notFound
   \<and> dataSourceEventStatisticsRead (exampleData Map.empty Map.empty) (failingAppliance notFound)
        = Some (None, SetId (exampleData Map.empty Map.empty) [])
   \<and> dataSourceListenIpStatisticsRead (exampleData Map.empty Map.empty) (failingAppliance notFound)
        = Some (None, SetId (exampleData Map.empty Map.empty) [])
   \<and> resourceGlbServiceRead exampleExternals (exampleData Map.empty Map.empty)
        (failingAppliance notFound) = Some (None, SetId (exampleData Map.empty Map.empty) [])
   \<and> resourceTrafficManagerRead exampleExternals (exampleData Map.empty Map.empty)
        (failingAppliance notFound) = Some (None, SetId (exampleData Map.empty Map.empty) [])
   \<and> Id (exampleData Map.empty Map.empty) = ''web''
   \<and> Id (SetId (exampleData Map.empty Map.empty) []) = []"
  using read_not_found_clears_id
    [where err = notFound and tm = "failingAppliance notFound"
       and d = "exampleData Map.empty Map.empty" and ext = exampleExternals]
  by (simp add: notFound_def failingAppliance_def exampleData_def SetId_def)

text \<open>
  Claim C3, as the specification states it: every read treats \<open>resource.not_found\<close> as a
  deletion (the id is cleared, no error is returned), the read of the singleton
  user-counters statistics included. That read has no branch for
  \<open>resource.not_found\<close>: on the appliance that answers every fetch with
  \<open>resource.not_found\<close> it returns an error and leaves the id \<open>user_counters_64\<close> as it
  was.
\<close>

theorem user_counters_not_found_counterexample:
  "ErrorId notFound = ''resource.not_found''
   \<and> GetExtrasUserCounters64Statistics (failingAppliance notFound) = Inl notFound
   \<and> dataSourceExtrasUserCounters64StatisticsRead exampleCounters (failingAppliance notFound)
        = Some (Some ''Failed to read vtm_user_counters_64: Resource not found'', exampleCounters)
   \<and> Id exampleCounters = ''user_counters_64''"
  by (simp add: dataSourceExtrasUserCounters64StatisticsRead_def failingAppliance_def
      notFound_def exampleCounters_def)

text \<open>
  Claim C3, amended. A read of a named object (event statistics, listening-IP statistics,
  GLB service, traffic manager) clears the id and returns no error when the appliance
  reports \<open>resource.not_found\<close>, and returns every other remote error wrapped with the
  resource type and the object's name, leaving the attribute set as it was. A read of a
  singleton (user-counters statistics, security settings) has no name and no case for
  \<open>resource.not_found\<close>: it returns every remote error wrapped with the resource type
  and leaves the attribute set, the id included, as it was. The list data source returns
  every remote error wrapped with its type and clears the id.
\<close>

theorem read_remote_errors:
  shows "(GetEventStatistics tm (getString d ''name'') = Inl err \<longrightarrow>
            dataSourceEventStatisticsRead d tm =
              Some (if ErrorId err = ''resource.not_found'' then (None, SetId d [])
                    else (Some (''Failed to read vtm_events '' @ quote @ getString d ''name''
                                  @ quote @ '': '' @ ErrorText err), d)))
       \<and> (GetListenIpStatistics tm (getString d ''name'') = Inl err \<longrightarrow>
            dataSourceListenIpStatisticsRead d tm =
              Some (if ErrorId err = ''resource.not_found'' then (None, SetId d [])
                    else (Some (''Failed to read vtm_listen_ips '' @ quote @ getString d ''name''
                                  @ quote @ '': '' @ ErrorText err), d)))
       \<and> (GetGlbService tm (getString d ''name'') = Inl err \<longrightarrow>
            resourceGlbServiceRead ext d tm =
              Some (if ErrorId err = ''resource.not_found'' then (None, SetId d [])
                    else (Some (''Failed to read vtm_glb_service '' @ quote @ getString d ''name''
                                  @ quote @ '': '' @ ErrorText err), d)))
       \<and> (GetTrafficManager tm (getString d ''name'') = Inl err \<longrightarrow>
            resourceTrafficManagerRead ext d tm =
              Some (if ErrorId err = ''resource.not_found'' then (None, SetId d [])
                    else (Some (''Failed to read vtm_traffic_manager '' @ quote
                                  @ getString d ''name'' @ quote @ '': '' @ ErrorText err), d)))
       \<and> (GetExtrasUserCounters64Statistics tm = Inl err \<longrightarrow>
            dataSourceExtrasUserCounters64StatisticsRead d tm =
              Some (Some (''Failed to read vtm_user_counters_64: '' @ ErrorText err), d))
       \<and> (GetSecurity tm = Inl err \<longrightarrow>
            resourceSecurityRead d tm =
              Some (Some (''Failed to read vtm_security: '' @ ErrorText err), d))
       \<and> (ListTrafficManagers tm = Inl err \<longrightarrow>
            dataSourceTrafficManagerListRead ext d tm =
              (Some (''Failed to read vtm_traffic_manager_list: '' @ ErrorText err), SetId d []))"
  unfolding dataSourceEventStatisticsRead_def dataSourceListenIpStatisticsRead_def
    resourceGlbServiceRead_def resourceTrafficManagerRead_def
    dataSourceExtrasUserCounters64StatisticsRead_def resourceSecurityRead_def
    dataSourceTrafficManagerListRead_def Let_def
  by (intro conjI impI; simp only: literals if_distrib [of Some] cong: if_weak_cong)

theorem read_remote_errors_witness:
  "GetTrafficManager (failingAppliance refused)
        (getString (exampleData Map.empty Map.empty) ''name'') = Inl refused
   \<and> resourceTrafficManagerRead exampleExternals (exampleData Map.empty Map.empty)
        (failingAppliance refused)
       = Some (Some (''Failed to read vtm_traffic_manager '' @ quote @ ''web'' @ quote
                       @ '': connection refused''), exampleData Map.empty Map.empty)
   \<and> dataSourceEventStatisticsRead (exampleData Map.empty Map.empty) (failingAppliance notFound)
       = Some (None, SetId (exampleData Map.empty Map.empty) [])
   \<and> dataSourceExtrasUserCounters64StatisticsRead exampleCounters (failingAppliance notFound)
       = Some (Some ''Failed to read vtm_user_counters_64: Resource not found'', exampleCounters)
   \<and> resourceSecurityRead exampleCounters (failingAppliance refused)
       = Some (Some ''Failed to read vtm_security: connection refused'', exampleCounters)
   \<and> dataSourceTrafficManagerListRead exampleExternals exampleCounters (failingAppliance refused)
       = (Some ''Failed to read vtm_traffic_manager_list: connection refused'',
          SetId exampleCounters [])"
  using read_remote_errors
    [where err = refused and tm = "failingAppliance refused"
       and d = "exampleData Map.empty Map.empty" and ext = exampleExternals]
    read_remote_errors
    [where err = notFound and tm = "failingAppliance notFound"
       and d = "exampleData Map.empty Map.empty" and ext = exampleExternals]
    read_remote_errors
    [where err = notFound and tm = "failingAppliance notFound"
       and d = exampleCounters and ext = exampleExternals]
    read_remote_errors
    [where err = refused and tm = "failingAppliance refused"
       and d = exampleCounters and ext = exampleExternals]
  by (simp add: notFound_def refused_def failingAppliance_def exampleData_def getString_def)

subsection \<open>Table attributes and their JSON shadows\<close>

text \<open>
  The handlers with table attributes are Create and Update of the GLB service and Update
  of the traffic manager (which is also its Create). An Update first fetches the object;
  the claims are about the runs in which that fetch succeeds.
\<close>

lemma table_handlers_all:
  assumes handler:
        "(tabs = glbServiceTables \<and> r = resourceGlbServiceCreate ext d tm)
         \<or> (tabs = glbServiceTables \<and> GetGlbService tm (getString d ''name'') = Inr object
              \<and> r = resourceGlbServiceUpdate ext d tm)
         \<or> (tabs = trafficManagerTables \<and> GetTrafficManager tm (getString d ''name'') = Inr object
              \<and> r = resourceTrafficManagerUpdate ext d tm)"
    and attribute: "(ty, f, p, jk, k) \<in> set tabs"
  shows "sentTable r p = Some (resolvedTable ext ty f (GetOkString d jk) (GetOkTable d k))
       \<and> tables (resultData r) k = writtenTable (GetOkString d jk) (GetOkTable d k) (tables d k)
       \<and> strs (resultData r) = strs d
       \<and> resultError r = None
       \<and> resultSent r \<noteq> None
       \<and> Id (resultData r) = getString d ''name''"
  using handler
proof (elim disjE conjE)
  assume *: "tabs = glbServiceTables" "r = resourceGlbServiceCreate ext d tm"
  show ?thesis
    using attribute glbCreate_sentTable [of ty f p jk k ext d tm]
      glbCreate_tables [of ty f p jk k ext d tm] glbCreate_result [of ext d tm]
    unfolding * by simp
next
  assume *: "tabs = glbServiceTables" "r = resourceGlbServiceUpdate ext d tm"
    and fetched: "GetGlbService tm (getString d ''name'') = Inr object"
  show ?thesis
    using attribute fetched glbUpdate_sentTable [of ty f p jk k tm d object ext]
      glbUpdate_tables [of ty f p jk k tm d object ext] glbUpdate_result [of tm d object ext]
    unfolding * by simp
next
  assume *: "tabs = trafficManagerTables" "r = resourceTrafficManagerUpdate ext d tm"
    and fetched: "GetTrafficManager tm (getString d ''name'') = Inr object"
  show ?thesis
    using attribute fetched tmUpdate_sentTable [of ty f p jk k tm d object ext]
      tmUpdate_tables [of ty f p jk k tm d object ext] tmUpdate_result [of tm d object ext]
    unfolding * by simp
qed

lemma table_handlers:
  assumes "(tabs = glbServiceTables \<and> r = resourceGlbServiceCreate ext d tm)
         \<or> (tabs = glbServiceTables \<and> GetGlbService tm (getString d ''name'') = Inr object
              \<and> r = resourceGlbServiceUpdate ext d tm)
         \<or> (tabs = trafficManagerTables \<and> GetTrafficManager tm (getString d ''name'') = Inr object
              \<and> r = resourceTrafficManagerUpdate ext d tm)"
    and "(ty, f, p, jk, k) \<in> set tabs"
  shows "sentTable r p = Some (resolvedTable ext ty f (GetOkString d jk) (GetOkTable d k))"
    and "tables (resultData r) k = writtenTable (GetOkString d jk) (GetOkTable d k) (tables d k)"
    and "strs (resultData r) = strs d"
    and "resultError r = None"
    and "resultSent r \<noteq> None"
    and "Id (resultData r) = getString d ''name''"
  using table_handlers_all [OF assms] by simp_all

text \<open>
  Claim C1. For every table attribute \<open>L\<close> with JSON shadow \<open>L_json\<close>, in Create and
  Update: if \<open>L_json\<close> is present and not empty and its text decodes without error to a
  table of the target type, the table sent upstream is the decoded one, whatever \<open>L\<close>
  holds.
\<close>

theorem json_shadow_wins:
  assumes "(tabs = glbServiceTables \<and> r = resourceGlbServiceCreate ext d tm)
         \<or> (tabs = glbServiceTables \<and> GetGlbService tm (getString d ''name'') = Inr object
              \<and> r = resourceGlbServiceUpdate ext d tm)
         \<or> (tabs = trafficManagerTables \<and> GetTrafficManager tm (getString d ''name'') = Inr object
              \<and> r = resourceTrafficManagerUpdate ext d tm)"
    and "(tableType, fromRow, path, L_json, L) \<in> set tabs"
    and "GetOkString d L_json = Some json"
    and "json_Unmarshal ext tableType json [] = (None, parsed)"
  shows "sentTable r path = Some parsed"
  using table_handlers(1) [OF assms(1,2)] assms(3,4) by (simp add: resolvedTable_def)

theorem json_shadow_wins_witness:
  "(''GlbServiceDnssecKeysTable'', row_GlbServiceDnssecKeys, ''Basic.DnssecKeys'',
      ''dnssec_keys_json'', ''dnssec_keys'') \<in> set glbServiceTables
   \<and> GetOkString conflictingData ''dnssec_keys_json'' = Some ''[]''
   \<and> GetOkTable conflictingData ''dnssec_keys'' = Some [exampleRow]
   \<and> json_Unmarshal exampleExternals ''GlbServiceDnssecKeysTable'' ''[]'' [] = (None, [])
   \<and> sentTable (resourceGlbServiceCreate exampleExternals conflictingData exampleAppliance)
        ''Basic.DnssecKeys'' = Some []
   \<and> sentTable (resourceGlbServiceUpdate exampleExternals conflictingData exampleAppliance)
        ''Basic.DnssecKeys'' = Some []
   \<and> GetOkString (exampleData [''trafficip_json'' \<mapsto> ''[]''] Map.empty) ''trafficip_json''
        = Some ''[]''
   \<and> sentTable (resourceTrafficManagerUpdate exampleExternals
          (exampleData [''trafficip_json'' \<mapsto> ''[]''] Map.empty) exampleAppliance)
        ''Basic.Trafficip'' = Some []"
  using json_shadow_wins
    [where tabs = glbServiceTables and ext = exampleExternals and d = conflictingData
       and tm = exampleAppliance and tableType = "''GlbServiceDnssecKeysTable''"
       and fromRow = row_GlbServiceDnssecKeys and path = "''Basic.DnssecKeys''"
       and L_json = "''dnssec_keys_json''" and L = "''dnssec_keys''" and json = "''[]''"
       and parsed = "[]" and object = nilObject
       and r = "resourceGlbServiceCreate exampleExternals conflictingData exampleAppliance"]
    json_shadow_wins
    [where tabs = glbServiceTables and ext = exampleExternals and d = conflictingData
       and tm = exampleAppliance and tableType = "''GlbServiceDnssecKeysTable''"
       and fromRow = row_GlbServiceDnssecKeys and path = "''Basic.DnssecKeys''"
       and L_json = "''dnssec_keys_json''" and L = "''dnssec_keys''" and json = "''[]''"
       and parsed = "[]" and object = nilObject
       and r = "resourceGlbServiceUpdate exampleExternals conflictingData exampleAppliance"]
    json_shadow_wins
    [where tabs = trafficManagerTables and ext = exampleExternals
       and d = "exampleData [''trafficip_json'' \<mapsto> ''[]''] Map.empty"
       and tm = exampleAppliance and tableType = "''TrafficManagerTrafficipTable''"
       and fromRow = row_TrafficManagerTrafficip and path = "''Basic.Trafficip''"
       and L_json = "''trafficip_json''" and L = "''trafficip''" and json = "''[]''"
       and parsed = "[]" and object = nilObject
       and r = "resourceTrafficManagerUpdate exampleExternals
                  (exampleData [''trafficip_json'' \<mapsto> ''[]''] Map.empty) exampleAppliance"]
  by (simp add: glbServiceTables_def trafficManagerTables_def conflictingData_def
      exampleData_def exampleExternals_def exampleAppliance_def GetOkString_def GetOkTable_def
      getString_def)

text \<open>
  The loop body of every table block builds the row struct of the table's remote shape.
\<close>

lemma loop_bodies_build_remote_shape:
  "row_GlbServiceDnssecKeys = toRemote (remoteShape ''GlbServiceDnssecKeysTable'')"
  "row_GlbServiceLocationSettings = toRemote (remoteShape ''GlbServiceLocationSettingsTable'')"
  "row_TrafficManagerHosts = toRemote (remoteShape ''TrafficManagerHostsTable'')"
  "row_TrafficManagerIf = toRemote (remoteShape ''TrafficManagerIfTable'')"
  "row_TrafficManagerIp = toRemote (remoteShape ''TrafficManagerIpTable'')"
  "row_TrafficManagerRoutes = toRemote (remoteShape ''TrafficManagerRoutesTable'')"
  "row_TrafficManagerApplianceCard = toRemote (remoteShape ''TrafficManagerApplianceCardTable'')"
  "row_TrafficManagerApplianceSysctl
     = toRemote (remoteShape ''TrafficManagerApplianceSysctlTable'')"
  "row_TrafficManagerTrafficip = toRemote (remoteShape ''TrafficManagerTrafficipTable'')"
  by (rule ext,
      simp add: row_GlbServiceDnssecKeys_def row_GlbServiceLocationSettings_def
        row_TrafficManagerHosts_def row_TrafficManagerIf_def row_TrafficManagerIp_def
        row_TrafficManagerRoutes_def row_TrafficManagerApplianceCard_def
        row_TrafficManagerApplianceSysctl_def row_TrafficManagerTrafficip_def
        toRemote_def remoteShape_def putString_def putBool_def putInt_def putList_def
        expandStringList_def Let_def)+

lemma table_loop_body:
  assumes "tabs = glbServiceTables \<or> tabs = trafficManagerTables"
    and "(ty, f, p, jk, k) \<in> set tabs"
  shows "f = toRemote (remoteShape ty)"
  using assms
  by (auto simp add: glbServiceTables_def trafficManagerTables_def
      loop_bodies_build_remote_shape)

text \<open>
  Claim C6. For every table attribute \<open>L\<close> with JSON shadow \<open>L_json\<close>, in Create and
  Update: if \<open>L_json\<close> is absent (or empty) and \<open>L\<close> is present and not empty, the table
  sent upstream is the conversion of the entries of \<open>L\<close> to the remote shape: one row
  struct per entry, in the order of the entries, in which every field of the shape holds
  the value of its attribute in that entry and no other field is set. If both are absent,
  the table sent upstream is the empty table. The last part of the statement lists the
  remote shape of every table attribute.
\<close>

theorem structured_list_without_shadow:
  assumes "(tabs = glbServiceTables \<and> r = resourceGlbServiceCreate ext d tm)
         \<or> (tabs = glbServiceTables \<and> GetGlbService tm (getString d ''name'') = Inr object
              \<and> r = resourceGlbServiceUpdate ext d tm)
         \<or> (tabs = trafficManagerTables \<and> GetTrafficManager tm (getString d ''name'') = Inr object
              \<and> r = resourceTrafficManagerUpdate ext d tm)"
    and "(tableType, fromRow, path, L_json, L) \<in> set tabs"
    and "GetOkString d L_json = None"
  shows "(GetOkTable d L = Some rows \<longrightarrow>
            sentTable r path = Some (map (toRemote (remoteShape tableType)) rows))
       \<and> (GetOkTable d L = None \<longrightarrow> sentTable r path = Some [])
       \<and> map (\<lambda>(tableType, fromRow, path, L_json, L). (L, remoteShape tableType))
            (glbServiceTables @ trafficManagerTables) =
            [(''dnssec_keys'',
                [(''Domain'', KString, ''domain''), (''SslKey'', KStringList, ''ssl_key'')]),
             (''location_settings'',
                [(''Ips'', KStringList, ''ips''), (''Location'', KString, ''location''),
                 (''Monitors'', KStringList, ''monitors''), (''Weight'', KInt, ''weight'')]),
             (''appliance_hosts'',
                [(''IpAddress'', KString, ''ip_address''), (''Name'', KString, ''name'')]),
             (''appliance_if'',
                [(''Autoneg'', KBool, ''autoneg''), (''Bmode'', KString, ''bmode''),
                 (''Bond'', KString, ''bond''), (''Duplex'', KBool, ''duplex''),
                 (''Mode'', KString, ''mode''), (''Mtu'', KInt, ''mtu''),
                 (''Name'', KString, ''name''), (''Speed'', KString, ''speed'')]),
             (''appliance_ip'',
                [(''Addr'', KString, ''addr''), (''Isexternal'', KBool, ''isexternal''),
                 (''Mask'', KString, ''mask''), (''Name'', KString, ''name'')]),
             (''appliance_routes'',
                [(''Gw'', KString, ''gw''), (''If'', KString, ''if''),
                 (''Mask'', KString, ''mask''), (''Name'', KString, ''name'')]),
             (''appliance_card'',
                [(''Interfaces'', KStringList, ''interfaces''), (''Label'', KString, ''label''),
                 (''Name'', KString, ''name'')]),
             (''appliance_sysctl'',
                [(''Description'', KString, ''description''), (''Sysctl'', KString, ''sysctl''),
                 (''Value'', KString, ''value'')]),
             (''trafficip'',
                [(''Name'', KString, ''name''), (''Networks'', KStringList, ''networks'')])]"
proof -
  have "tabs = glbServiceTables \<or> tabs = trafficManagerTables"
    using assms(1) by (elim disjE conjE) simp_all
  then have "fromRow = toRemote (remoteShape tableType)"
    using assms(2) by (rule table_loop_body)
  then have "sentTable r path = Some (resolvedTable ext tableType
      (toRemote (remoteShape tableType)) (GetOkString d L_json) (GetOkTable d L))"
    using table_handlers(1) [OF assms(1,2)] by simp
  then show ?thesis
    using assms(3)
    by (simp add: resolvedTable_def glbServiceTables_def trafficManagerTables_def
        remoteShape_def)
qed

theorem structured_list_without_shadow_witness:
  "GetOkString (exampleData Map.empty [''dnssec_keys'' \<mapsto> [exampleRow]]) ''dnssec_keys_json'' = None
   \<and> GetOkTable (exampleData Map.empty [''dnssec_keys'' \<mapsto> [exampleRow]]) ''dnssec_keys''
        = Some [exampleRow]
   \<and> sentTable (resourceGlbServiceCreate exampleExternals
          (exampleData Map.empty [''dnssec_keys'' \<mapsto> [exampleRow]]) exampleAppliance)
        ''Basic.DnssecKeys''
        = Some [toRemote [(''Domain'', KString, ''domain''), (''SslKey'', KStringList, ''ssl_key'')]
                  exampleRow]
   \<and> strs (toRemote [(''Domain'', KString, ''domain''), (''SslKey'', KStringList, ''ssl_key'')]
          exampleRow) ''Domain'' = Some ''example.com''
   \<and> lsts (toRemote [(''Domain'', KString, ''domain''), (''SslKey'', KStringList, ''ssl_key'')]
          exampleRow) ''SslKey'' = Some [''key1'']
   \<and> strs (toRemote [(''Domain'', KString, ''domain''), (''SslKey'', KStringList, ''ssl_key'')]
          exampleRow) ''SslKey'' = None
   \<and> GetOkTable (exampleData Map.empty Map.empty) ''trafficip'' = None
   \<and> sentTable (resourceTrafficManagerUpdate exampleExternals (exampleData Map.empty Map.empty)
          exampleAppliance) ''Basic.Trafficip'' = Some []"
  using structured_list_without_shadow
    [where tabs = glbServiceTables and ext = exampleExternals
       and d = "exampleData Map.empty [''dnssec_keys'' \<mapsto> [exampleRow]]"
       and tm = exampleAppliance and tableType = "''GlbServiceDnssecKeysTable''"
       and fromRow = row_GlbServiceDnssecKeys and path = "''Basic.DnssecKeys''"
       and L_json = "''dnssec_keys_json''" and L = "''dnssec_keys''" and rows = "[exampleRow]"
       and object = nilObject
       and r = "resourceGlbServiceCreate exampleExternals
                  (exampleData Map.empty [''dnssec_keys'' \<mapsto> [exampleRow]]) exampleAppliance"]
    structured_list_without_shadow
    [where tabs = trafficManagerTables and ext = exampleExternals
       and d = "exampleData Map.empty Map.empty"
       and tm = exampleAppliance and tableType = "''TrafficManagerTrafficipTable''"
       and fromRow = row_TrafficManagerTrafficip and path = "''Basic.Trafficip''"
       and L_json = "''trafficip_json''" and L = "''trafficip''" and rows = "[]"
       and object = nilObject
       and r = "resourceTrafficManagerUpdate exampleExternals (exampleData Map.empty Map.empty)
                  exampleAppliance"]
  by (simp add: glbServiceTables_def trafficManagerTables_def exampleData_def
      exampleAppliance_def GetOkString_def GetOkTable_def getString_def getList_def
      remoteShape_def toRemote_def exampleRow_def nilFields_def putString_def putList_def)

text \<open>
  Claim C4. For every table attribute \<open>L\<close> with JSON shadow \<open>L_json\<close>: if \<open>L_json\<close> is
  present and its text does not decode, Create and Update still return no error. The error
  of \<^verbatim>\<open>json.Unmarshal\<close> is dropped and the handler goes on: it sends the object, with
  whatever table the failed decoding left, and sets the id.
\<close>

theorem malformed_shadow_raises_no_error:
  assumes "(tabs = glbServiceTables \<and> r = resourceGlbServiceCreate ext d tm)
         \<or> (tabs = glbServiceTables \<and> GetGlbService tm (getString d ''name'') = Inr object
              \<and> r = resourceGlbServiceUpdate ext d tm)
         \<or> (tabs = trafficManagerTables \<and> GetTrafficManager tm (getString d ''name'') = Inr object
              \<and> r = resourceTrafficManagerUpdate ext d tm)"
    and "(tableType, fromRow, path, L_json, L) \<in> set tabs"
    and "GetOkString d L_json = Some json"
    and "json_Unmarshal ext tableType json [] = (Some parseError, left)"
  shows "resultError r = None \<and> resultSent r \<noteq> None \<and> sentTable r path = Some left
       \<and> Id (resultData r) = getString d ''name''"
  using table_handlers(1,4,5,6) [OF assms(1,2)] assms(3,4) by (simp add: resolvedTable_def)

theorem malformed_shadow_raises_no_error_witness:
  "GetOkString (exampleData [''location_settings_json'' \<mapsto> ''[{''] Map.empty)
      ''location_settings_json'' = Some ''[{''
   \<and> json_Unmarshal exampleExternals ''GlbServiceLocationSettingsTable'' ''[{'' []
        = (Some ''invalid character'', [])
   \<and> resultError (resourceGlbServiceUpdate exampleExternals
          (exampleData [''location_settings_json'' \<mapsto> ''[{''] Map.empty) exampleAppliance) = None
   \<and> sentTable (resourceGlbServiceUpdate exampleExternals
          (exampleData [''location_settings_json'' \<mapsto> ''[{''] Map.empty) exampleAppliance)
        ''Basic.LocationSettings'' = Some []
   \<and> Id (resultData (resourceGlbServiceUpdate exampleExternals
          (exampleData [''location_settings_json'' \<mapsto> ''[{''] Map.empty) exampleAppliance))
        = ''web''"
  using malformed_shadow_raises_no_error
    [where tabs = glbServiceTables and ext = exampleExternals
       and d = "exampleData [''location_settings_json'' \<mapsto> ''[{''] Map.empty"
       and tm = exampleAppliance and tableType = "''GlbServiceLocationSettingsTable''"
       and fromRow = row_GlbServiceLocationSettings and path = "''Basic.LocationSettings''"
       and L_json = "''location_settings_json''" and L = "''location_settings''"
       and json = "''[{''" and parseError = "''invalid character''" and left = "[]"
       and object = nilObject
       and r = "resourceGlbServiceUpdate exampleExternals
                  (exampleData [''location_settings_json'' \<mapsto> ''[{''] Map.empty)
                  exampleAppliance"]
  by (simp add: glbServiceTables_def exampleData_def exampleExternals_def exampleAppliance_def
      GetOkString_def getString_def)

text \<open>
  Claim C2, as the specification states it: after the reconciliation in Create and Update,
  both \<open>L\<close> and \<open>L_json\<close> have been written back and hold mutually consistent values. On
  the configuration whose \<open>dnssec_keys_json\<close> is \<open>[]\<close> and whose \<open>dnssec_keys\<close> holds
  one row, Create sends the empty table and writes neither attribute: the state still holds
  the text \<open>[]\<close> next to the one row, and the two are not consistent.
\<close>

theorem shadow_write_back_counterexample:
  "strs (resultData (resourceGlbServiceCreate exampleExternals conflictingData exampleAppliance))
      ''dnssec_keys_json'' = Some ''[]''
   \<and> tables (resultData (resourceGlbServiceCreate exampleExternals conflictingData exampleAppliance))
      ''dnssec_keys'' = Some [exampleRow]
   \<and> sentTable (resourceGlbServiceCreate exampleExternals conflictingData exampleAppliance)
      ''Basic.DnssecKeys'' = Some []
   \<and> \<not> shadowConsistent exampleExternals ''GlbServiceDnssecKeysTable'' row_GlbServiceDnssecKeys
        ''dnssec_keys_json'' ''dnssec_keys''
        (resultData (resourceGlbServiceCreate exampleExternals conflictingData exampleAppliance))"
  using glbCreate_result [of exampleExternals conflictingData exampleAppliance]
    glbCreate_tables [of "''GlbServiceDnssecKeysTable''" row_GlbServiceDnssecKeys
      "''Basic.DnssecKeys''" "''dnssec_keys_json''" "''dnssec_keys''"
      exampleExternals conflictingData exampleAppliance]
    glbCreate_sentTable [of "''GlbServiceDnssecKeysTable''" row_GlbServiceDnssecKeys
      "''Basic.DnssecKeys''" "''dnssec_keys_json''" "''dnssec_keys''"
      exampleExternals conflictingData exampleAppliance]
  by (simp add: glbServiceTables_def conflictingData_def exampleData_def exampleExternals_def
      GetOkString_def GetOkTable_def writtenTable_def resolvedTable_def shadowConsistent_def
      appendRows_map)

text \<open>
  Claim C2, amended. For every table attribute \<open>L\<close> with JSON shadow \<open>L_json\<close>, the
  reconciliation in Create and Update never writes \<open>L_json\<close>. It writes \<open>L\<close> back only
  when \<open>L_json\<close> is absent or empty: the rows \<open>L\<close> holds when \<open>L\<close> is present and not
  empty, the empty table otherwise. When \<open>L_json\<close> is present and not empty, \<open>L\<close> stays
  as it was.
\<close>

theorem shadow_write_back:
  assumes "(tabs = glbServiceTables \<and> r = resourceGlbServiceCreate ext d tm)
         \<or> (tabs = glbServiceTables \<and> GetGlbService tm (getString d ''name'') = Inr object
              \<and> r = resourceGlbServiceUpdate ext d tm)
         \<or> (tabs = trafficManagerTables \<and> GetTrafficManager tm (getString d ''name'') = Inr object
              \<and> r = resourceTrafficManagerUpdate ext d tm)"
    and "(tableType, fromRow, path, L_json, L) \<in> set tabs"
  shows "strs (resultData r) L_json = strs d L_json
       \<and> (GetOkString d L_json = Some json \<longrightarrow> tables (resultData r) L = tables d L)
       \<and> (GetOkString d L_json = None \<longrightarrow> GetOkTable d L = Some rows \<longrightarrow>
            tables (resultData r) L = Some rows)
       \<and> (GetOkString d L_json = None \<longrightarrow> GetOkTable d L = None \<longrightarrow>
            tables (resultData r) L = Some [])"
  using table_handlers(2,3) [OF assms(1,2)] by (simp add: writtenTable_def)

theorem shadow_write_back_witness:
  "GetOkString conflictingData ''dnssec_keys_json'' = Some ''[]''
   \<and> tables (resultData (resourceGlbServiceCreate exampleExternals conflictingData exampleAppliance))
        ''dnssec_keys'' = Some [exampleRow]
   \<and> strs (resultData (resourceGlbServiceCreate exampleExternals conflictingData exampleAppliance))
        ''dnssec_keys_json'' = Some ''[]''
   \<and> GetOkString (exampleData Map.empty [''dnssec_keys'' \<mapsto> [exampleRow]]) ''dnssec_keys_json'' = None
   \<and> GetOkTable (exampleData Map.empty [''dnssec_keys'' \<mapsto> [exampleRow]]) ''dnssec_keys''
        = Some [exampleRow]
   \<and> tables (resultData (resourceGlbServiceCreate exampleExternals
          (exampleData Map.empty [''dnssec_keys'' \<mapsto> [exampleRow]]) exampleAppliance))
        ''dnssec_keys'' = Some [exampleRow]
   \<and> strs (resultData (resourceGlbServiceCreate exampleExternals
          (exampleData Map.empty [''dnssec_keys'' \<mapsto> [exampleRow]]) exampleAppliance))
        ''dnssec_keys_json'' = None
   \<and> GetOkTable (exampleData Map.empty Map.empty) ''trafficip'' = None
   \<and> tables (exampleData Map.empty Map.empty) ''trafficip'' = None
   \<and> tables (resultData (resourceTrafficManagerUpdate exampleExternals
          (exampleData Map.empty Map.empty) exampleAppliance)) ''trafficip'' = Some []"
  using shadow_write_back
    [where tabs = glbServiceTables and ext = exampleExternals and d = conflictingData
       and tm = exampleAppliance and tableType = "''GlbServiceDnssecKeysTable''"
       and fromRow = row_GlbServiceDnssecKeys and path = "''Basic.DnssecKeys''"
       and L_json = "''dnssec_keys_json''" and L = "''dnssec_keys''" and json = "''[]''"
       and rows = "[]" and object = nilObject
       and r = "resourceGlbServiceCreate exampleExternals conflictingData exampleAppliance"]
    shadow_write_back
    [where tabs = glbServiceTables and ext = exampleExternals
       and d = "exampleData Map.empty [''dnssec_keys'' \<mapsto> [exampleRow]]"
       and tm = exampleAppliance and tableType = "''GlbServiceDnssecKeysTable''"
       and fromRow = row_GlbServiceDnssecKeys and path = "''Basic.DnssecKeys''"
       and L_json = "''dnssec_keys_json''" and L = "''dnssec_keys''" and json = "''[]''"
       and rows = "[exampleRow]" and object = nilObject
       and r = "resourceGlbServiceCreate exampleExternals
                  (exampleData Map.empty [''dnssec_keys'' \<mapsto> [exampleRow]]) exampleAppliance"]
    shadow_write_back
    [where tabs = trafficManagerTables and ext = exampleExternals
       and d = "exampleData Map.empty Map.empty"
       and tm = exampleAppliance and tableType = "''TrafficManagerTrafficipTable''"
       and fromRow = row_TrafficManagerTrafficip and path = "''Basic.Trafficip''"
       and L_json = "''trafficip_json''" and L = "''trafficip''" and json = "''[]''"
       and rows = "[]" and object = nilObject
       and r = "resourceTrafficManagerUpdate exampleExternals (exampleData Map.empty Map.empty)
                  exampleAppliance"]
  by (simp add: glbServiceTables_def trafficManagerTables_def conflictingData_def
      exampleData_def exampleAppliance_def GetOkString_def GetOkTable_def getString_def)

subsection \<open>String-list attributes\<close>

lemma update_string_list:
  assumes "(attrs = glbServiceStringLists \<and> GetGlbService tm (getString d ''name'') = Inr object
              \<and> r = resourceGlbServiceUpdate ext d tm)
         \<or> (attrs = securityStringLists \<and> GetSecurity tm = Inr object
              \<and> r = resourceSecurityUpdate ext d tm)
         \<or> (attrs = trafficManagerStringLists
              \<and> GetTrafficManager tm (getString d ''name'') = Inr object
              \<and> r = resourceTrafficManagerUpdate ext d tm)"
    and "(path, key, dflt) \<in> set attrs"
  shows "sentList r path = Some (resolvedList (GetOkList d key) (getList d key) dflt)
       \<and> lsts (resultData r) key = writtenList (GetOkList d key) (lsts d key) dflt"
  using assms(1)
proof (elim disjE conjE)
  assume *: "attrs = glbServiceStringLists" "r = resourceGlbServiceUpdate ext d tm"
    and fetched: "GetGlbService tm (getString d ''name'') = Inr object"
  show ?thesis
    using assms(2) fetched glbUpdate_sentList [of path key dflt tm d object ext]
      glbUpdate_lsts [of path key dflt tm d object ext]
    unfolding * by simp
next
  assume *: "attrs = securityStringLists" "r = resourceSecurityUpdate ext d tm"
    and fetched: "GetSecurity tm = Inr object"
  show ?thesis
    using assms(2) fetched securityUpdate_sentList [of path key dflt tm object ext d]
      securityUpdate_lsts [of path key dflt tm object ext d]
    unfolding * by simp
next
  assume *: "attrs = trafficManagerStringLists" "r = resourceTrafficManagerUpdate ext d tm"
    and fetched: "GetTrafficManager tm (getString d ''name'') = Inr object"
  show ?thesis
    using assms(2) fetched tmUpdate_sentList [of path key dflt tm d object ext]
      tmUpdate_lsts [of path key dflt tm d object ext]
    unfolding * by simp
qed

lemma GetOkList_Some:
  "GetOkList d key = Some v \<Longrightarrow> getList d key = v \<and> lsts d key = Some v"
  by (auto simp add: GetOkList_def getList_def split: option.splits if_splits)

lemma GetOkList_listsSeen:
  assumes "lsts d = listsSeen prior configured" and "configured key = None"
  shows "GetOkList d key =
           (if key \<in> set computedStringLists
            then (case prior key of Some v \<Rightarrow> (if v = [] then None else Some v) | None \<Rightarrow> None)
            else None)"
  using assms by (simp add: GetOkList_def listsSeen_def)

text \<open>
  Claim C7, as the specification states it: for every string-list attribute absent from
  the configuration, Update resets the field to its default, \<open>["all"]\<close> for
  \<open>snmp_allow\<close>. The schema declares \<open>snmp_allow\<close> (and the other three attributes with
  a literal default) \<^verbatim>\<open>Computed\<close>. With a state that holds \<open>["10.0.0.0/8"]\<close> for it and
  a configuration that leaves it out, \<^verbatim>\<open>d.GetOk\<close> reports the list of the state: Update
  sends that list, not \<open>["all"]\<close>, and the local state keeps it.
\<close>

theorem computed_string_list_counterexample:
  "omittedLists ''snmp_allow'' = None
   \<and> priorLists ''snmp_allow'' = Some [''10.0.0.0/8'']
   \<and> lsts carriedData = listsSeen priorLists omittedLists
   \<and> GetTrafficManager exampleAppliance (getString carriedData ''name'') = Inr nilObject
   \<and> sentList (resourceTrafficManagerUpdate exampleExternals carriedData exampleAppliance)
        ''Snmp.Allow'' = Some [''10.0.0.0/8'']
   \<and> lsts (resultData (resourceTrafficManagerUpdate exampleExternals carriedData
        exampleAppliance)) ''snmp_allow'' = Some [''10.0.0.0/8'']
   \<and> sentList (resourceTrafficManagerUpdate exampleExternals carriedData exampleAppliance)
        ''Snmp.Allow'' \<noteq> Some [''all'']"
  using tmUpdate_sentList [of "''Snmp.Allow''" "''snmp_allow''" "[''all'']" exampleAppliance
      carriedData nilObject exampleExternals]
    tmUpdate_lsts [of "''Snmp.Allow''" "''snmp_allow''" "[''all'']" exampleAppliance
      carriedData nilObject exampleExternals]
  by (simp add: trafficManagerStringLists_def carriedData_def exampleData_def
      exampleAppliance_def omittedLists_def priorLists_def listsSeen_def
      computedStringLists_def GetOkList_def getList_def getString_def resolvedList_def
      writtenList_def expandStringList_def)

text \<open>
  Claim C7, amended. Update resets a string-list attribute to its literal default, and
  writes that default back into the local state, whenever \<^verbatim>\<open>d.GetOk\<close> reports the
  attribute unset or empty; it does not leave the fetched object's value in place. That is
  the case for every attribute that is absent from the configuration, except for the four
  \<^verbatim>\<open>Computed\<close> attributes when the state holds a list that is not empty: such a list is
  sent as it is and stays in the local state. The default is the empty list, except for
  the four NTP pool servers of \<open>appliance_ntpservers\<close>, \<open>["%gateway%"]\<close> of
  \<open>fault_tolerance_ospfv2_neighbor_addrs\<close>, \<open>["*"]\<close> of \<open>rest_api_bind_ips\<close> and
  \<open>["all"]\<close> of \<open>snmp_allow\<close>; these four are the \<^verbatim>\<open>Computed\<close> attributes.
\<close>

theorem absent_string_list_reset_to_default:
  assumes "(attrs = glbServiceStringLists \<and> GetGlbService tm (getString d ''name'') = Inr object
              \<and> r = resourceGlbServiceUpdate ext d tm)
         \<or> (attrs = securityStringLists \<and> GetSecurity tm = Inr object
              \<and> r = resourceSecurityUpdate ext d tm)
         \<or> (attrs = trafficManagerStringLists
              \<and> GetTrafficManager tm (getString d ''name'') = Inr object
              \<and> r = resourceTrafficManagerUpdate ext d tm)"
    and "(path, key, dflt) \<in> set attrs"
  shows "(GetOkList d key = None \<longrightarrow>
            sentList r path = Some dflt \<and> lsts (resultData r) key = Some dflt)
       \<and> (lsts d = listsSeen prior configured \<and> configured key = None
            \<and> (key \<notin> set computedStringLists \<or> prior key = None \<or> prior key = Some []) \<longrightarrow>
            sentList r path = Some dflt \<and> lsts (resultData r) key = Some dflt)
       \<and> (lsts d = listsSeen prior configured \<and> configured key = None
            \<and> key \<in> set computedStringLists \<and> prior key = Some carried \<and> carried \<noteq> [] \<longrightarrow>
            sentList r path = Some carried \<and> lsts (resultData r) key = Some carried)
       \<and> map (\<lambda>(path, key, dflt). (key, dflt)) trafficManagerStringLists =
            [(''appliance_name_servers'', []),
             (''appliance_ntpservers'',
                [''0.zeus.pool.ntp.org'', ''1.zeus.pool.ntp.org'', ''2.zeus.pool.ntp.org'',
                 ''3.zeus.pool.ntp.org'']),
             (''appliance_search_domains'', []),
             (''appliance_vlans'', []),
             (''ec2_trafficips_public_enis'', []),
             (''fault_tolerance_lss_dedicated_ips'', []),
             (''fault_tolerance_ospfv2_neighbor_addrs'', [''%gateway%'']),
             (''rest_api_bind_ips'', [''*'']),
             (''snmp_allow'', [''all''])]
       \<and> map (\<lambda>(path, key, dflt). dflt) glbServiceStringLists = [[], [], [], [], []]
       \<and> map (\<lambda>(path, key, dflt). dflt) securityStringLists = [[], [], []]
       \<and> computedStringLists =
            [''appliance_ntpservers'', ''fault_tolerance_ospfv2_neighbor_addrs'',
             ''rest_api_bind_ips'', ''snmp_allow'']"
proof -
  note block = update_string_list [OF assms]
  have unset: "sentList r path = Some dflt \<and> lsts (resultData r) key = Some dflt"
    if "GetOkList d key = None"
    using block that by (simp add: resolvedList_def writtenList_def)
  have reset: "sentList r path = Some dflt \<and> lsts (resultData r) key = Some dflt"
    if "lsts d = listsSeen prior configured" "configured key = None"
      "key \<notin> set computedStringLists \<or> prior key = None \<or> prior key = Some []"
  proof -
    have "GetOkList d key = None"
      using GetOkList_listsSeen [OF that(1,2)] that(3) by auto
    then show ?thesis by (rule unset)
  qed
  have kept: "sentList r path = Some carried \<and> lsts (resultData r) key = Some carried"
    if "lsts d = listsSeen prior configured" "configured key = None"
      "key \<in> set computedStringLists" "prior key = Some carried" "carried \<noteq> []"
  proof -
    have seen: "GetOkList d key = Some carried"
      using GetOkList_listsSeen [OF that(1,2)] that(3,4,5) by simp
    then have "getList d key = carried" "lsts d key = Some carried"
      using GetOkList_Some [of d key carried] by simp_all
    then show ?thesis
      using block seen by (simp add: resolvedList_def writtenList_def expandStringList_def)
  qed
  show ?thesis
    using unset reset kept
    by (simp add: trafficManagerStringLists_def glbServiceStringLists_def
        securityStringLists_def computedStringLists_def)
qed

theorem absent_string_list_reset_to_default_witness:
  "(''Appliance.Ntpservers'', ''appliance_ntpservers'',
      [''0.zeus.pool.ntp.org'', ''1.zeus.pool.ntp.org'', ''2.zeus.pool.ntp.org'',
       ''3.zeus.pool.ntp.org'']) \<in> set trafficManagerStringLists
   \<and> GetTrafficManager exampleAppliance (getString carriedData ''name'') = Inr nilObject
   \<and> lsts carriedData = listsSeen priorLists omittedLists
   \<and> omittedLists ''appliance_ntpservers'' = None
   \<and> priorLists ''appliance_ntpservers'' = None
   \<and> GetOkList carriedData ''appliance_ntpservers'' = None
   \<and> sentList (resourceTrafficManagerUpdate exampleExternals carriedData exampleAppliance)
        ''Appliance.Ntpservers''
        = Some [''0.zeus.pool.ntp.org'', ''1.zeus.pool.ntp.org'', ''2.zeus.pool.ntp.org'',
                ''3.zeus.pool.ntp.org'']
   \<and> lsts (resultData (resourceTrafficManagerUpdate exampleExternals carriedData
        exampleAppliance)) ''appliance_ntpservers''
        = Some [''0.zeus.pool.ntp.org'', ''1.zeus.pool.ntp.org'', ''2.zeus.pool.ntp.org'',
                ''3.zeus.pool.ntp.org'']
   \<and> priorLists ''snmp_allow'' = Some [''10.0.0.0/8'']
   \<and> ''snmp_allow'' \<in> set computedStringLists
   \<and> sentList (resourceTrafficManagerUpdate exampleExternals carriedData exampleAppliance)
        ''Snmp.Allow'' = Some [''10.0.0.0/8'']
   \<and> priorLists ''access'' = Some [''10.0.0.1'']
   \<and> ''access'' \<notin> set computedStringLists
   \<and> sentList (resourceSecurityUpdate exampleExternals carriedData exampleAppliance)
        ''Basic.Access'' = Some []
   \<and> lsts (resultData (resourceSecurityUpdate exampleExternals carriedData exampleAppliance))
        ''access'' = Some []"
proof -
  have seen: "lsts carriedData = listsSeen priorLists omittedLists"
    by (simp add: carriedData_def)
  have fetched: "GetTrafficManager exampleAppliance (getString carriedData ''name'') = Inr nilObject"
    "GetSecurity exampleAppliance = Inr nilObject"
    by (simp_all add: exampleAppliance_def)
  have omitted: "omittedLists ''appliance_ntpservers'' = None"
    "omittedLists ''snmp_allow'' = None" "omittedLists ''access'' = None"
    by (simp_all add: omittedLists_def)
  have prior: "priorLists ''appliance_ntpservers'' = None"
    "priorLists ''snmp_allow'' = Some [''10.0.0.0/8'']"
    "priorLists ''access'' = Some [''10.0.0.1'']"
    by (simp_all add: priorLists_def)
  have computed: "''snmp_allow'' \<in> set computedStringLists"
    "''access'' \<notin> set computedStringLists"
    by (simp_all add: computedStringLists_def)
  have attributes:
    "(''Appliance.Ntpservers'', ''appliance_ntpservers'',
        [''0.zeus.pool.ntp.org'', ''1.zeus.pool.ntp.org'', ''2.zeus.pool.ntp.org'',
         ''3.zeus.pool.ntp.org'']) \<in> set trafficManagerStringLists"
    "(''Snmp.Allow'', ''snmp_allow'', [''all'']) \<in> set trafficManagerStringLists"
    "(''Basic.Access'', ''access'', []) \<in> set securityStringLists"
    by (simp_all add: trafficManagerStringLists_def securityStringLists_def)
  have unset: "GetOkList carriedData ''appliance_ntpservers'' = None"
    using GetOkList_listsSeen [OF seen omitted(1)] prior(1) by simp
  have ntp:
    "sentList (resourceTrafficManagerUpdate exampleExternals carriedData exampleAppliance)
        ''Appliance.Ntpservers''
        = Some [''0.zeus.pool.ntp.org'', ''1.zeus.pool.ntp.org'', ''2.zeus.pool.ntp.org'',
                ''3.zeus.pool.ntp.org'']
     \<and> lsts (resultData (resourceTrafficManagerUpdate exampleExternals carriedData
        exampleAppliance)) ''appliance_ntpservers''
        = Some [''0.zeus.pool.ntp.org'', ''1.zeus.pool.ntp.org'', ''2.zeus.pool.ntp.org'',
                ''3.zeus.pool.ntp.org'']"
    using absent_string_list_reset_to_default
      [where attrs = trafficManagerStringLists and tm = exampleAppliance
         and d = carriedData and object = nilObject
         and ext = exampleExternals and path = "''Appliance.Ntpservers''"
         and key = "''appliance_ntpservers''"
         and dflt = "[''0.zeus.pool.ntp.org'', ''1.zeus.pool.ntp.org'',
                      ''2.zeus.pool.ntp.org'', ''3.zeus.pool.ntp.org'']"
         and prior = priorLists and configured = omittedLists and carried = "[]"
         and r = "resourceTrafficManagerUpdate exampleExternals carriedData exampleAppliance",
       THEN conjunct2, THEN conjunct1]
      fetched(1) attributes(1) seen omitted(1) prior(1)
    by simp
  have snmp:
    "sentList (resourceTrafficManagerUpdate exampleExternals carriedData exampleAppliance)
        ''Snmp.Allow'' = Some [''10.0.0.0/8'']"
    using absent_string_list_reset_to_default
      [where attrs = trafficManagerStringLists and tm = exampleAppliance
         and d = carriedData and object = nilObject
         and ext = exampleExternals and path = "''Snmp.Allow''" and key = "''snmp_allow''"
         and dflt = "[''all'']"
         and prior = priorLists and configured = omittedLists
         and carried = "[''10.0.0.0/8'']"
         and r = "resourceTrafficManagerUpdate exampleExternals carriedData exampleAppliance",
       THEN conjunct2, THEN conjunct2, THEN conjunct1]
      fetched(1) attributes(2) seen omitted(2) prior(2) computed(1)
    by simp
  have access:
    "sentList (resourceSecurityUpdate exampleExternals carriedData exampleAppliance)
        ''Basic.Access'' = Some []
     \<and> lsts (resultData (resourceSecurityUpdate exampleExternals carriedData exampleAppliance))
        ''access'' = Some []"
    using absent_string_list_reset_to_default
      [where attrs = securityStringLists and tm = exampleAppliance
         and d = carriedData and object = nilObject
         and ext = exampleExternals and path = "''Basic.Access''" and key = "''access''"
         and dflt = "[]"
         and prior = priorLists and configured = omittedLists and carried = "[]"
         and r = "resourceSecurityUpdate exampleExternals carriedData exampleAppliance",
       THEN conjunct2, THEN conjunct1]
      fetched(2) attributes(3) seen omitted(3) computed(2)
    by simp
  show ?thesis
    using seen fetched(1) omitted(1) prior attributes(1) computed unset ntp snmp access
    by simp
qed

subsection \<open>The result of Apply\<close>

lemma Apply_update_frames:
  "NewGlbService (tm\<lparr>Apply := a\<rparr>) = NewGlbService tm"
  "GetGlbService (tm\<lparr>Apply := a\<rparr>) = GetGlbService tm"
  "GetSecurity (tm\<lparr>Apply := a\<rparr>) = GetSecurity tm"
  "GetTrafficManager (tm\<lparr>Apply := a\<rparr>) = GetTrafficManager tm"
  by simp_all

text \<open>
  Claim C10. Once the object is at hand (constructed locally in Create of the GLB service,
  fetched in the Updates), Create and Update return no error and set the resource id,
  whatever \<^verbatim>\<open>Apply\<close> answers: the handlers drop its result, so the whole outcome is the
  same for every behaviour of \<^verbatim>\<open>Apply\<close>, and a failed apply is not reported.
\<close>

theorem apply_failure_not_reported:
  shows "resultError (resourceGlbServiceCreate ext d tm) = None
       \<and> Id (resultData (resourceGlbServiceCreate ext d tm)) = getString d ''name''
       \<and> resultSent (resourceGlbServiceCreate ext d tm) \<noteq> None
       \<and> (GetGlbService tm (getString d ''name'') = Inr object \<longrightarrow>
            resultError (resourceGlbServiceUpdate ext d tm) = None
            \<and> Id (resultData (resourceGlbServiceUpdate ext d tm)) = getString d ''name''
            \<and> resultSent (resourceGlbServiceUpdate ext d tm) \<noteq> None)
       \<and> (GetSecurity tm = Inr object \<longrightarrow>
            resultError (resourceSecurityUpdate ext d tm) = None
            \<and> Id (resultData (resourceSecurityUpdate ext d tm)) = ''security''
            \<and> resultSent (resourceSecurityUpdate ext d tm) \<noteq> None)
       \<and> (GetTrafficManager tm (getString d ''name'') = Inr object \<longrightarrow>
            resultError (resourceTrafficManagerUpdate ext d tm) = None
            \<and> Id (resultData (resourceTrafficManagerUpdate ext d tm)) = getString d ''name''
            \<and> resultSent (resourceTrafficManagerUpdate ext d tm) \<noteq> None)
       \<and> resourceGlbServiceCreate ext d (tm\<lparr>Apply := answer\<rparr>) = resourceGlbServiceCreate ext d tm
       \<and> resourceGlbServiceUpdate ext d (tm\<lparr>Apply := answer\<rparr>) = resourceGlbServiceUpdate ext d tm
       \<and> resourceSecurityUpdate ext d (tm\<lparr>Apply := answer\<rparr>) = resourceSecurityUpdate ext d tm
       \<and> resourceTrafficManagerUpdate ext d (tm\<lparr>Apply := answer\<rparr>)
           = resourceTrafficManagerUpdate ext d tm"
proof -
  have "resourceGlbServiceCreate ext d (tm\<lparr>Apply := answer\<rparr>) = resourceGlbServiceCreate ext d tm"
    unfolding resourceGlbServiceCreate_def Let_def by (simp only: Apply_update_frames)
  moreover
  have "resourceGlbServiceUpdate ext d (tm\<lparr>Apply := answer\<rparr>) = resourceGlbServiceUpdate ext d tm"
    unfolding resourceGlbServiceUpdate_def Let_def by (simp only: Apply_update_frames)
  moreover
  have "resourceSecurityUpdate ext d (tm\<lparr>Apply := answer\<rparr>) = resourceSecurityUpdate ext d tm"
    unfolding resourceSecurityUpdate_def Let_def by (simp only: Apply_update_frames)
  moreover
  have "resourceTrafficManagerUpdate ext d (tm\<lparr>Apply := answer\<rparr>)
          = resourceTrafficManagerUpdate ext d tm"
    unfolding resourceTrafficManagerUpdate_def Let_def by (simp only: Apply_update_frames)
  ultimately show ?thesis
    using glbCreate_result [of ext d tm] glbUpdate_result [of tm d object ext]
      securityUpdate_result [of tm object ext d] tmUpdate_result [of tm d object ext]
    by simp
qed

theorem apply_failure_not_reported_witness:
  "Apply exampleAppliance nilObject = Some refused
   \<and> GetTrafficManager exampleAppliance (getString (exampleData Map.empty Map.empty) ''name'')
        = Inr nilObject
   \<and> resultError (resourceTrafficManagerUpdate exampleExternals (exampleData Map.empty Map.empty)
        exampleAppliance) = None
   \<and> Id (resultData (resourceTrafficManagerUpdate exampleExternals
        (exampleData Map.empty Map.empty) exampleAppliance)) = ''web''
   \<and> resultError (resourceGlbServiceUpdate exampleExternals (exampleData Map.empty Map.empty)
        exampleAppliance) = None
   \<and> resultError (resourceSecurityUpdate exampleExternals (exampleData Map.empty Map.empty)
        exampleAppliance) = None
   \<and> Id (resultData (resourceSecurityUpdate exampleExternals
        (exampleData Map.empty Map.empty) exampleAppliance)) = ''security''
   \<and> resultError (resourceGlbServiceCreate exampleExternals (exampleData Map.empty Map.empty)
        exampleAppliance) = None"
  using apply_failure_not_reported
    [where tm = exampleAppliance and d = "exampleData Map.empty Map.empty"
       and object = nilObject and ext = exampleExternals]
  by (simp add: exampleData_def exampleAppliance_def getString_def)

end
